theory Spec2Isabelle
  imports Complex_Main "HOL-Library.Word"
begin

section \<open>Python values\<close>

text \<open>
  The proxy views of \<^verbatim>\<open>backend/apps/proxy/views.py\<close> move Python values between an
  HTTP client, a key-value cache and the HTTP response. The values are parsed JSON
  (\<^verbatim>\<open>response.json()\<close>), byte strings (\<^verbatim>\<open>response.content\<close>) and \<^verbatim>\<open>None\<close>
  (what \<^verbatim>\<open>cache.get\<close> returns for an absent key).

  A finite float is represented by the rational number it denotes (every binary64 value
  is one); the negative zero, the infinities and NaN are values of their own, as in
  Python. The result of \<^verbatim>\<open>round(x, 2)\<close> is represented by the two-decimal number that
  CPython computes for it and that \<^verbatim>\<open>repr\<close> prints: below \<open>9 \<times> 10\<^sup>1\<^sup>3\<close> in magnitude
  each such number has a float of its own. Geographic coordinates are far inside that
  range.
\<close>

datatype pyfloat = Finite rat | NegZero | PosInf | NegInf | NaN

type_synonym bytes = "8 word list"

datatype pyval =
    PNone
  | PBool bool
  | PInt int
  | PFloat pyfloat
  | PStr string
  | PBytes bytes
  | PList "pyval list"
  | PDict "(string \<times> pyval) list"

text \<open>Python's truth test, as \<^verbatim>\<open>if cached:\<close> and \<^verbatim>\<open>if not query:\<close> apply it.\<close>

fun truthy :: "pyval \<Rightarrow> bool" where
  "truthy PNone = False"
| "truthy (PBool b) = b"
| "truthy (PInt i) = (i \<noteq> 0)"
| "truthy (PFloat f) = (f \<noteq> Finite 0 \<and> f \<noteq> NegZero)"
| "truthy (PStr s) = (s \<noteq> [])"
| "truthy (PBytes b) = (b \<noteq> [])"
| "truthy (PList xs) = (xs \<noteq> [])"
| "truthy (PDict kvs) = (kvs \<noteq> [])"

section \<open>Formatting numbers\<close>

text \<open>\<^verbatim>\<open>str(n)\<close> for a natural number, as the f-strings print a status code.\<close>

definition digit_char :: "nat \<Rightarrow> char" where
  "digit_char d = ''0123456789'' ! (d mod 10)"

definition is_digit :: "char \<Rightarrow> bool" where
  "is_digit ch \<longleftrightarrow> ch \<in> set ''0123456789''"

fun str_nat :: "nat \<Rightarrow> string" where
  "str_nat n = (if n < 10 then [digit_char n] else str_nat (n div 10) @ [digit_char (n mod 10)])"

declare str_nat.simps [simp del]

text \<open>
  \<^verbatim>\<open>round(x, 2)\<close>: CPython rounds the exact value of \<open>x\<close> to the nearest multiple of
  0.01, a tie going to the even one; the sign of \<open>x\<close> is kept when the result is zero,
  and a float that is not finite rounds to itself.
\<close>

definition round_half_even :: "rat \<Rightarrow> int" where
  "round_half_even x =
     (let f = \<lfloor>x\<rfloor>; d = x - of_int f
      in if d < 1 / 2 then f else if 1 / 2 < d then f + 1 else if even f then f else f + 1)"

fun py_round2 :: "pyfloat \<Rightarrow> pyfloat" where
  "py_round2 (Finite q) =
     (let k = round_half_even (q * 100)
      in if k = 0 \<and> q < 0 then NegZero else Finite (of_int k / 100))"
| "py_round2 NegZero = NegZero"
| "py_round2 PosInf = PosInf"
| "py_round2 NegInf = NegInf"
| "py_round2 NaN = NaN"

text \<open>
  \<^verbatim>\<open>repr(x)\<close> of a float with at most two decimals, which is how an f-string prints
  \<^verbatim>\<open>lat_r\<close>: the integer part, a point, and one or two decimals (\<^verbatim>\<open>37.0\<close>,
  \<^verbatim>\<open>37.7\<close>, \<^verbatim>\<open>37.77\<close>). \<open>repr_hundredths n\<close> prints \<open>n / 100\<close>. The views apply
  \<^verbatim>\<open>repr\<close> to results of \<^verbatim>\<open>round(x, 2)\<close> only.
\<close>

definition repr_hundredths :: "nat \<Rightarrow> string" where
  "repr_hundredths n =
     str_nat (n div 100) @ ''.'' @
     (if n mod 10 = 0 then [digit_char (n mod 100 div 10)]
      else [digit_char (n mod 100 div 10), digit_char (n mod 10)])"

text \<open>The decimals that \<open>repr_hundredths\<close> prints after the point.\<close>

definition fraction_digits :: "nat \<Rightarrow> string" where
  "fraction_digits n =
     (if n mod 10 = 0 then [digit_char (n mod 100 div 10)]
      else [digit_char (n mod 100 div 10), digit_char (n mod 10)])"

fun py_repr :: "pyfloat \<Rightarrow> string" where
  "py_repr (Finite q) =
     (if q < 0 then ''-'' else []) @ repr_hundredths (nat \<lfloor>\<bar>q\<bar> * 100\<rfloor>)"
| "py_repr NegZero = ''-0.0''"
| "py_repr PosInf = ''inf''"
| "py_repr NegInf = ''-inf''"
| "py_repr NaN = ''nan''"

section \<open>Cache store, upstream client, file system\<close>

text \<open>
  The cache (\<^verbatim>\<open>django.core.cache.cache\<close>) maps a key to a value and the time at which
  the entry expires. \<^verbatim>\<open>cache.get\<close> returns \<^verbatim>\<open>None\<close> for an absent or expired key;
  \<^verbatim>\<open>cache.set(key, value, timeout)\<close> writes an entry that expires \<open>timeout\<close> seconds
  from now. The cache server is taken to be reachable: the two calls do not raise.
\<close>

type_synonym cache_store = "string \<rightharpoonup> (pyval \<times> nat)"

definition cache_get :: "cache_store \<Rightarrow> nat \<Rightarrow> string \<Rightarrow> pyval" where
  "cache_get c t key =
     (case c key of None \<Rightarrow> PNone | Some (v, expires) \<Rightarrow> if t < expires then v else PNone)"

definition cache_set :: "cache_store \<Rightarrow> nat \<Rightarrow> string \<Rightarrow> pyval \<Rightarrow> nat \<Rightarrow> cache_store" where
  "cache_set c t key v timeout = c(key \<mapsto> (v, t + timeout))"

text \<open>
  One call of the \<^verbatim>\<open>httpx\<close> client either raises (\<^verbatim>\<open>httpx.TimeoutException\<close> or
  another exception, each with its \<^verbatim>\<open>str(e)\<close>) or returns a response with a status
  code, a body, and what \<^verbatim>\<open>response.json()\<close> does on that body: raise (\<open>Inl\<close> of
  \<^verbatim>\<open>str(e)\<close>) or return the parsed value.
\<close>

record http_response =
  status_code :: nat
  content :: bytes
  json :: "string + pyval"

datatype http_outcome =
    RaisesTimeout string
  | RaisesOther string
  | Returns http_response

datatype http_request =
    HttpPost string "(string \<times> string) list" "(string \<times> string) list"
  | HttpGet string "(string \<times> pyval) list"

text \<open>
  \<^verbatim>\<open>response.raise_for_status()\<close> raises \<^verbatim>\<open>httpx.HTTPStatusError\<close> unless the status
  is 2xx.
\<close>

definition is_success :: "http_response \<Rightarrow> bool" where
  "is_success r \<longleftrightarrow> 200 \<le> status_code r \<and> status_code r \<le> 299"

record settings =
  BASE_DIR :: string
  OVERPASS_URL :: string
  OPEN_METEO_URL :: string
  CANOPY_TILE_URL :: string

definition CACHE_TTL_OVERPASS :: nat where
  "CACHE_TTL_OVERPASS = 60 * 60 * 24 * 7"

definition CACHE_TTL_CLIMATE :: nat where
  "CACHE_TTL_CLIMATE = 60 * 60 * 24 * 30"

definition CACHE_TTL_CANOPY :: nat where
  "CACHE_TTL_CANOPY = 60 * 60 * 24 * 365"

text \<open>
  What a handler reads besides the request and the cache: the settings, the clock, the
  upstream service behind the HTTP client, the file system (\<^verbatim>\<open>os.path.exists\<close>, and
  \<^verbatim>\<open>open(path, "rb")\<close>, which raises or gives the file's bytes), and two library
  functions taken as they are: \<^verbatim>\<open>hashlib.sha256(s.encode()).hexdigest()\<close> and
  \<^verbatim>\<open>float(s)\<close> (\<open>None\<close> where it raises \<^verbatim>\<open>ValueError\<close>).
\<close>

record env =
  conf :: settings
  now :: nat
  upstream :: "http_request \<Rightarrow> http_outcome"
  path_exists :: "string \<Rightarrow> bool"
  open_rb :: "string \<Rightarrow> string + bytes"
  sha256_hexdigest :: "string \<Rightarrow> string"
  float_of_str :: "string \<Rightarrow> pyfloat option"

text \<open>\<^verbatim>\<open>os.path.join\<close> (POSIX): a component that starts with a slash restarts the path.\<close>

definition join_step :: "string \<Rightarrow> string \<Rightarrow> string" where
  "join_step path b =
     (if take 1 b = ''/'' then b
      else if path = [] \<or> last path = CHR ''/'' then path @ b
      else path @ ''/'' @ b)"

definition os_path_join :: "string \<Rightarrow> string list \<Rightarrow> string" where
  "os_path_join a p = foldl join_step a p"

section \<open>Responses and effects\<close>

text \<open>
  \<^verbatim>\<open>Response(data, status)\<close> of the REST framework (status 200 when none is given),
  \<^verbatim>\<open>HttpResponse(content, content_type)\<close> and \<^verbatim>\<open>FileResponse(file, content_type)\<close> of
  Django (both status 200), and an exception that no handler catches.
\<close>

datatype response =
    Response pyval nat
  | HttpResponse pyval string
  | FileResponse bytes string
  | Unhandled string

fun status_of :: "response \<Rightarrow> nat option" where
  "status_of (Response _ s) = Some s"
| "status_of (HttpResponse _ _) = Some 200"
| "status_of (FileResponse _ _) = Some 200"
| "status_of (Unhandled _) = None"

definition error_body :: "string \<Rightarrow> pyval" where
  "error_body msg = PDict [(''error'', PStr msg)]"

text \<open>What a handler does to the outside, in the order it does it.\<close>

datatype effect =
    CacheGet string
  | CacheSet string pyval nat
  | Upstream http_request
  | PathExists string
  | OpenFile string

record result =
  response :: response
  store :: cache_store
  effects :: "effect list"

section \<open>The three proxy views\<close>

subsection \<open>OverpassProxyView.post\<close>

definition overpass_cache_key :: "env \<Rightarrow> string \<Rightarrow> string" where
  "overpass_cache_key e query = ''overpass:'' @ take 16 (sha256_hexdigest e query)"

definition overpass_request :: "env \<Rightarrow> string \<Rightarrow> http_request" where
  "overpass_request e query =
     HttpPost (OVERPASS_URL (conf e)) [(''data'', query)]
       [(''Content-Type'', ''application/x-www-form-urlencoded'')]"

text \<open>
  \<open>query\<close> is \<^verbatim>\<open>request.data.get("query", "")\<close>, a string (the empty one when the
  body has no query). The three \<^verbatim>\<open>except\<close> clauses are the three kinds of failure.
\<close>

definition overpass_post :: "env \<Rightarrow> cache_store \<Rightarrow> string \<Rightarrow> result" where
  "overpass_post e c query =
     (if \<not> truthy (PStr query) then
        \<lparr>response = Response (error_body ''Missing 'query' parameter'') 400,
         store = c, effects = []\<rparr>
      else
        let cache_key = overpass_cache_key e query;
            cached = cache_get c (now e) cache_key
        in if truthy cached then
             \<lparr>response = Response cached 200, store = c, effects = [CacheGet cache_key]\<rparr>
           else
             let req = overpass_request e query;
                 fail = (\<lambda>msg s. \<lparr>response = Response (error_body msg) s, store = c,
                                   effects = [CacheGet cache_key, Upstream req]\<rparr>)
             in case upstream e req of
                  RaisesTimeout _ \<Rightarrow> fail ''Overpass API timeout'' 504
                | RaisesOther msg \<Rightarrow> fail msg 500
                | Returns r \<Rightarrow>
                    if \<not> is_success r then
                      fail (''Overpass API error: '' @ str_nat (status_code r)) 502
                    else
                      (case json r of
                         Inl msg \<Rightarrow> fail msg 500
                       | Inr data \<Rightarrow>
                           \<lparr>response = Response data 200,
                            store = cache_set c (now e) cache_key data CACHE_TTL_OVERPASS,
                            effects = [CacheGet cache_key, Upstream req,
                                       CacheSet cache_key data CACHE_TTL_OVERPASS]\<rparr>))"

subsection \<open>ClimateProxyView.get\<close>

definition climate_cache_key :: "pyfloat \<Rightarrow> pyfloat \<Rightarrow> string" where
  "climate_cache_key lat_f lng_f =
     (let lat_r = py_round2 lat_f; lng_r = py_round2 lng_f
      in ''climate:'' @ py_repr lat_r @ '':'' @ py_repr lng_r)"

definition climate_request :: "env \<Rightarrow> pyfloat \<Rightarrow> pyfloat \<Rightarrow> http_request" where
  "climate_request e lat_f lng_f =
     HttpGet (OPEN_METEO_URL (conf e))
       [(''latitude'', PFloat (py_round2 lat_f)),
        (''longitude'', PFloat (py_round2 lng_f)),
        (''start_date'', PStr ''1994-01-01''),
        (''end_date'', PStr ''2024-12-31''),
        (''daily'', PStr ''temperature_2m_max,temperature_2m_min''),
        (''timezone'', PStr ''auto'')]"

definition climate_fetch :: "env \<Rightarrow> cache_store \<Rightarrow> pyfloat \<Rightarrow> pyfloat \<Rightarrow> result" where
  "climate_fetch e c lat_f lng_f =
     (let cache_key = climate_cache_key lat_f lng_f;
          cached = cache_get c (now e) cache_key
      in if truthy cached then
           \<lparr>response = Response cached 200, store = c, effects = [CacheGet cache_key]\<rparr>
         else
           let req = climate_request e lat_f lng_f;
               fail = (\<lambda>msg s. \<lparr>response = Response (error_body msg) s, store = c,
                                 effects = [CacheGet cache_key, Upstream req]\<rparr>)
           in case upstream e req of
                RaisesTimeout _ \<Rightarrow> fail ''Climate API timeout'' 504
              | RaisesOther msg \<Rightarrow> fail msg 500
              | Returns r \<Rightarrow>
                  if \<not> is_success r then
                    fail (''Climate API error: '' @ str_nat (status_code r)) 502
                  else
                    (case json r of
                       Inl msg \<Rightarrow> fail msg 500
                     | Inr data \<Rightarrow>
                         \<lparr>response = Response data 200,
                          store = cache_set c (now e) cache_key data CACHE_TTL_CLIMATE,
                          effects = [CacheGet cache_key, Upstream req,
                                     CacheSet cache_key data CACHE_TTL_CLIMATE]\<rparr>))"

text \<open>
  \<open>lat\<close> and \<open>lng\<close> are \<^verbatim>\<open>request.query_params.get(...)\<close>: \<open>None\<close> when the parameter
  is absent. The part after the two \<^verbatim>\<open>float\<close> calls is \<open>climate_fetch\<close>.
\<close>

definition climate_get :: "env \<Rightarrow> cache_store \<Rightarrow> string option \<Rightarrow> string option \<Rightarrow> result" where
  "climate_get e c lat lng =
     (let bad = (\<lambda>msg. \<lparr>response = Response (error_body msg) 400, store = c, effects = []\<rparr>)
      in case (lat, lng) of
           (Some lat_s, Some lng_s) \<Rightarrow>
             if lat_s = [] \<or> lng_s = [] then bad ''Missing 'lat' and 'lng' parameters''
             else (case float_of_str e lat_s of
                     None \<Rightarrow> bad ''Invalid lat/lng values''
                   | Some lat_f \<Rightarrow>
                       (case float_of_str e lng_s of
                          None \<Rightarrow> bad ''Invalid lat/lng values''
                        | Some lng_f \<Rightarrow> climate_fetch e c lat_f lng_f))
         | _ \<Rightarrow> bad ''Missing 'lat' and 'lng' parameters'')"

subsection \<open>CanopyTileView.get\<close>

definition valid_quadkey :: "string \<Rightarrow> bool" where
  "valid_quadkey quadkey \<longleftrightarrow> quadkey \<noteq> [] \<and> list_all (\<lambda>c. c \<in> set ''0123'') quadkey"

definition canopy_local_path :: "env \<Rightarrow> string \<Rightarrow> string" where
  "canopy_local_path e quadkey =
     os_path_join (BASE_DIR (conf e)) [''data'', ''canopy'', quadkey @ ''.tif'']"

definition canopy_cache_key :: "string \<Rightarrow> string" where
  "canopy_cache_key quadkey = ''canopy:'' @ quadkey"

definition canopy_request :: "env \<Rightarrow> string \<Rightarrow> http_request" where
  "canopy_request e quadkey = HttpGet (CANOPY_TILE_URL (conf e) @ ''/'' @ quadkey @ ''.tif'') []"

definition canopy_get :: "env \<Rightarrow> cache_store \<Rightarrow> string \<Rightarrow> result" where
  "canopy_get e c quadkey =
     (if \<not> valid_quadkey quadkey then
        \<lparr>response = Response (error_body ''Invalid quadkey format'') 400,
         store = c, effects = []\<rparr>
      else
        let local_path = canopy_local_path e quadkey
        in if path_exists e local_path then
             \<lparr>response = (case open_rb e local_path of
                             Inl msg \<Rightarrow> Unhandled msg
                           | Inr file \<Rightarrow> FileResponse file ''image/tiff''),
              store = c, effects = [PathExists local_path, OpenFile local_path]\<rparr>
           else
             let cache_key = canopy_cache_key quadkey;
                 cached = cache_get c (now e) cache_key
             in if truthy cached then
                  \<lparr>response = HttpResponse cached ''image/tiff'', store = c,
                   effects = [PathExists local_path, CacheGet cache_key]\<rparr>
                else
                  let req = canopy_request e quadkey;
                      fail = (\<lambda>msg s.
                        \<lparr>response = Response (error_body msg) s, store = c,
                         effects = [PathExists local_path, CacheGet cache_key, Upstream req]\<rparr>)
                  in case upstream e req of
                       RaisesTimeout msg \<Rightarrow> fail msg 500
                     | RaisesOther msg \<Rightarrow> fail msg 500
                     | Returns r \<Rightarrow>
                         if \<not> is_success r then
                           (if status_code r = 404 then fail ''Tile not found'' 404
                            else fail (''Tile fetch error: '' @ str_nat (status_code r)) 502)
                         else
                           let tile_bytes = content r
                           in if length tile_bytes < 25 * 1024 * 1024 then
                                \<lparr>response = HttpResponse (PBytes tile_bytes) ''image/tiff'',
                                 store = cache_set c (now e) cache_key (PBytes tile_bytes)
                                           CACHE_TTL_CANOPY,
                                 effects = [PathExists local_path, CacheGet cache_key,
                                            Upstream req,
                                            CacheSet cache_key (PBytes tile_bytes)
                                              CACHE_TTL_CANOPY]\<rparr>
                              else
                                \<lparr>response = HttpResponse (PBytes tile_bytes) ''image/tiff'',
                                 store = c,
                                 effects = [PathExists local_path, CacheGet cache_key,
                                            Upstream req]\<rparr>)"

subsection \<open>Routing\<close>

text \<open>
  \<^verbatim>\<open>proxy/urls.py\<close> routes \<^verbatim>\<open>overpass/\<close>, \<^verbatim>\<open>climate/\<close> and \<^verbatim>\<open>canopy/<str:quadkey>/\<close> to
  the three views.
\<close>

datatype request =
    OverpassRequest string
  | ClimateRequest "string option" "string option"
  | CanopyRequest string

fun proxy_view :: "env \<Rightarrow> cache_store \<Rightarrow> request \<Rightarrow> result" where
  "proxy_view e c (OverpassRequest query) = overpass_post e c query"
| "proxy_view e c (ClimateRequest lat lng) = climate_get e c lat lng"
| "proxy_view e c (CanopyRequest quadkey) = canopy_get e c quadkey"

section \<open>Reading the effects of a run\<close>

fun is_cache_get :: "effect \<Rightarrow> bool" where
  "is_cache_get (CacheGet _) = True"
| "is_cache_get _ = False"

fun is_cache_set :: "effect \<Rightarrow> bool" where
  "is_cache_set (CacheSet _ _ _) = True"
| "is_cache_set _ = False"

fun is_upstream :: "effect \<Rightarrow> bool" where
  "is_upstream (Upstream _) = True"
| "is_upstream _ = False"

definition upstream_calls :: "result \<Rightarrow> nat" where
  "upstream_calls r = length (filter is_upstream (effects r))"

definition cache_lookups :: "result \<Rightarrow> nat" where
  "cache_lookups r = length (filter is_cache_get (effects r))"

definition cache_writes :: "result \<Rightarrow> nat" where
  "cache_writes r = length (filter is_cache_set (effects r))"

text \<open>
  The response of a run is the payload it has just fetched: one of its upstream calls
  returned a 2xx response, and the run answers with that response's parsed JSON (status
  200) or with its bytes as \<^verbatim>\<open>image/tiff\<close>.
\<close>

definition answers_fetched_payload :: "env \<Rightarrow> result \<Rightarrow> bool" where
  "answers_fetched_payload e res \<longleftrightarrow>
     list_ex
       (\<lambda>x. case x of
              Upstream rq \<Rightarrow>
                (case upstream e rq of
                   Returns r \<Rightarrow>
                     is_success r \<and>
                     (response res = HttpResponse (PBytes (content r)) ''image/tiff'' \<or>
                      (case json r of
                         Inr data \<Rightarrow> response res = Response data 200
                       | Inl _ \<Rightarrow> False))
                 | _ \<Rightarrow> False)
            | _ \<Rightarrow> False)
       (effects res)"

definition error_status :: "nat \<Rightarrow> bool" where
  "error_status s \<longleftrightarrow> s \<in> {400, 404, 500, 502, 504}"

text \<open>Cache writes go with a fetched payload, and error responses with an untouched cache.\<close>

definition writes_only_with_payload :: "env \<Rightarrow> cache_store \<Rightarrow> result \<Rightarrow> bool" where
  "writes_only_with_payload e c res \<longleftrightarrow>
     ((\<exists>s. status_of (response res) = Some s \<and> error_status s) \<longrightarrow>
        store res = c \<and> cache_writes res = 0) \<and>
     (store res \<noteq> c \<or> cache_writes res \<noteq> 0 \<longrightarrow>
        status_of (response res) = Some 200 \<and> answers_fetched_payload e res)"

text \<open>When a run gets as far as the upstream service.\<close>

definition overpass_reaches_upstream :: "env \<Rightarrow> cache_store \<Rightarrow> string \<Rightarrow> bool" where
  "overpass_reaches_upstream e c query \<longleftrightarrow>
     query \<noteq> [] \<and> \<not> truthy (cache_get c (now e) (overpass_cache_key e query))"

definition climate_reaches_upstream ::
  "env \<Rightarrow> cache_store \<Rightarrow> string option \<Rightarrow> string option \<Rightarrow> pyfloat \<Rightarrow> pyfloat \<Rightarrow> bool" where
  "climate_reaches_upstream e c lat lng lat_f lng_f \<longleftrightarrow>
     (\<exists>lat_s lng_s. lat = Some lat_s \<and> lng = Some lng_s \<and> lat_s \<noteq> [] \<and> lng_s \<noteq> [] \<and>
        float_of_str e lat_s = Some lat_f \<and> float_of_str e lng_s = Some lng_f) \<and>
     \<not> truthy (cache_get c (now e) (climate_cache_key lat_f lng_f))"

definition canopy_reaches_upstream :: "env \<Rightarrow> cache_store \<Rightarrow> string \<Rightarrow> bool" where
  "canopy_reaches_upstream e c quadkey \<longleftrightarrow>
     valid_quadkey quadkey \<and> \<not> path_exists e (canopy_local_path e quadkey) \<and>
     \<not> truthy (cache_get c (now e) (canopy_cache_key quadkey))"

section \<open>Example environments\<close>

text \<open>The defaults of \<^verbatim>\<open>config/settings.py\<close>, for a given base directory.\<close>

definition default_settings :: "string \<Rightarrow> settings" where
  "default_settings base =
     \<lparr>BASE_DIR = base,
      OVERPASS_URL = ''https://overpass-api.de/api/interpreter'',
      OPEN_METEO_URL = ''https://archive-api.open-meteo.com/v1/archive'',
      CANOPY_TILE_URL =
        ''https://dataforgood-fb-data.s3.amazonaws.com/forests/v1/alsgedi_global_v6_float/chm''\<rparr>"

text \<open>
  An environment with no local tile file, at time \<open>t\<close>, whose upstream service is
  \<open>up\<close>; the hash function is any \<open>h\<close>, and \<^verbatim>\<open>float\<close> reads the two literals
  \<^verbatim>\<open>37.774\<close> and \<^verbatim>\<open>-122.419\<close>.
\<close>

definition two_floats :: "string \<Rightarrow> pyfloat option" where
  "two_floats = map_of [(''37.774'', Finite (37774 / 1000)), (''-122.419'', Finite (- 122419 / 1000))]"

definition env_no_files :: "nat \<Rightarrow> (http_request \<Rightarrow> http_outcome) \<Rightarrow> (string \<Rightarrow> string) \<Rightarrow> env" where
  "env_no_files t up h =
     \<lparr>conf = default_settings ''/app/backend'', now = t, upstream = up,
      path_exists = (\<lambda>_. False), open_rb = (\<lambda>_. Inl ''No such file or directory''),
      sha256_hexdigest = h, float_of_str = two_floats\<rparr>"

text \<open>The same with one local tile file, for the quadkey 01.\<close>

definition env_tile_01 :: "bytes \<Rightarrow> (http_request \<Rightarrow> http_outcome) \<Rightarrow> env" where
  "env_tile_01 file up =
     \<lparr>conf = default_settings ''/app/backend'', now = 0, upstream = up,
      path_exists = (\<lambda>p. p = ''/app/backend/data/canopy/01.tif''),
      open_rb = (\<lambda>p. if p = ''/app/backend/data/canopy/01.tif'' then Inr file
                       else Inl ''No such file or directory''),
      sha256_hexdigest = (\<lambda>_. []), float_of_str = two_floats\<rparr>"

definition ok_json :: "pyval \<Rightarrow> http_outcome" where
  "ok_json data = Returns \<lparr>status_code = 200, content = [], json = Inr data\<rparr>"

definition ok_bytes :: "bytes \<Rightarrow> http_outcome" where
  "ok_bytes b = Returns \<lparr>status_code = 200, content = b, json = Inl ''Expecting value''\<rparr>"

text \<open>A payload of exactly 25 MiB.\<close>

definition MiB25 :: bytes where
  "MiB25 = replicate (25 * 1024 * 1024) 0"

definition status_only :: "nat \<Rightarrow> http_outcome" where
  "status_only s = Returns \<lparr>status_code = s, content = [], json = Inl ''Expecting value''\<rparr>"

section \<open>Basic facts\<close>

lemma cache_get_hit: "c key = Some (v, expires) \<Longrightarrow> t < expires \<Longrightarrow> cache_get c t key = v"
  by (simp add: cache_get_def)

lemma cache_get_later:
  "\<not> truthy (cache_get c t key) \<Longrightarrow> t \<le> t' \<Longrightarrow> \<not> truthy (cache_get c t' key)"
  by (auto simp: cache_get_def split: option.splits if_splits)

lemma valid_quadkey_iff:
  "valid_quadkey quadkey \<longleftrightarrow>
     quadkey \<noteq> [] \<and>
     (\<forall>ch \<in> set quadkey. ch = CHR ''0'' \<or> ch = CHR ''1'' \<or> ch = CHR ''2'' \<or> ch = CHR ''3'')"
  by (auto simp: valid_quadkey_def list_all_iff)

section \<open>Canopy: quadkey validation\<close>

text \<open>
  C7. A canopy request is accepted exactly when its quadkey is non-empty and made of the
  characters 0, 1, 2, 3. A quadkey that is empty or has another character is answered
  with status 400 and the body \<^verbatim>\<open>{"error": "Invalid quadkey format"}\<close> before anything
  is consulted: the run has no effect at all (no file-system test, no cache lookup, no
  upstream call) and leaves the cache as it was. An accepted quadkey is never answered
  with 400, and its run consults at least the first tier.
\<close>

theorem canopy_quadkey_validation:
  "(valid_quadkey quadkey \<longleftrightarrow>
      quadkey \<noteq> [] \<and>
      (\<forall>ch \<in> set quadkey. ch = CHR ''0'' \<or> ch = CHR ''1'' \<or> ch = CHR ''2'' \<or> ch = CHR ''3'')) \<and>
   (\<not> valid_quadkey quadkey \<longrightarrow>
      canopy_get e c quadkey =
        \<lparr>response = Response (error_body ''Invalid quadkey format'') 400, store = c, effects = []\<rparr>) \<and>
   (valid_quadkey quadkey \<longrightarrow>
      status_of (response (canopy_get e c quadkey)) \<noteq> Some 400 \<and>
      effects (canopy_get e c quadkey) \<noteq> [])"
proof (intro conjI impI)
  show "valid_quadkey quadkey \<longleftrightarrow>
      quadkey \<noteq> [] \<and>
      (\<forall>ch \<in> set quadkey. ch = CHR ''0'' \<or> ch = CHR ''1'' \<or> ch = CHR ''2'' \<or> ch = CHR ''3'')"
    by (rule valid_quadkey_iff)
next
  assume "\<not> valid_quadkey quadkey"
  then show "canopy_get e c quadkey =
        \<lparr>response = Response (error_body ''Invalid quadkey format'') 400, store = c, effects = []\<rparr>"
    by (simp add: canopy_get_def)
next
  assume "valid_quadkey quadkey"
  then show "status_of (response (canopy_get e c quadkey)) \<noteq> Some 400"
    by (simp add: canopy_get_def Let_def split: http_outcome.split sum.split)
next
  assume "valid_quadkey quadkey"
  then show "effects (canopy_get e c quadkey) \<noteq> []"
    by (simp add: canopy_get_def Let_def split: http_outcome.split sum.split)
qed

text \<open>The quadkeys of the specification: 0123 is accepted; 012a, the empty one and 4 are rejected.\<close>

theorem canopy_quadkey_validation_witness:
  "valid_quadkey ''0123'' \<and>
   (\<forall>e c. status_of (response (canopy_get e c ''0123'')) \<noteq> Some 400) \<and>
   \<not> valid_quadkey ''012a'' \<and> \<not> valid_quadkey [] \<and> \<not> valid_quadkey ''4'' \<and>
   (\<forall>e c. canopy_get e c ''012a'' =
      \<lparr>response = Response (error_body ''Invalid quadkey format'') 400, store = c, effects = []\<rparr>) \<and>
   (\<forall>e c. canopy_get e c [] =
      \<lparr>response = Response (error_body ''Invalid quadkey format'') 400, store = c, effects = []\<rparr>) \<and>
   (\<forall>e c. canopy_get e c ''4'' =
      \<lparr>response = Response (error_body ''Invalid quadkey format'') 400, store = c, effects = []\<rparr>)"
proof -
  have a: "valid_quadkey ''0123''"
    using canopy_quadkey_validation [of "''0123''"] by simp
  have b: "\<not> valid_quadkey ''012a''"
    using canopy_quadkey_validation [of "''012a''"] by simp
  have n: "\<not> valid_quadkey []"
    using canopy_quadkey_validation [of "[]"] by simp
  have d: "\<not> valid_quadkey ''4''"
    using canopy_quadkey_validation [of "''4''"] by simp
  note rejected = canopy_quadkey_validation [THEN conjunct2, THEN conjunct1, THEN mp]
  note accepted = canopy_quadkey_validation [THEN conjunct2, THEN conjunct2, THEN mp, THEN conjunct1]
  note a' = accepted [OF a]
  note b' = rejected [OF b]
  note n' = rejected [OF n]
  note d' = rejected [OF d]
  show ?thesis
    by (intro conjI allI a b n d a' b' n' d')
qed

section \<open>Canopy: the local tile store\<close>

lemma path_01: "canopy_local_path (env_no_files t up h) ''01'' = ''/app/backend/data/canopy/01.tif''"
  by (simp add: canopy_local_path_def os_path_join_def join_step_def env_no_files_def default_settings_def)

lemma path_01': "canopy_local_path (env_tile_01 f up) ''01'' = ''/app/backend/data/canopy/01.tif''"
  by (simp add: canopy_local_path_def os_path_join_def join_step_def env_tile_01_def default_settings_def)

text \<open>
  C4. For a valid quadkey whose tile file exists at its path under
  \<^verbatim>\<open>BASE_DIR/data/canopy\<close> (and opens), the view streams that file: the run tests the
  path and opens the file, and does nothing else. It makes no cache lookup, no cache
  write and no upstream call, and the cache is as it was.
\<close>

theorem canopy_local_file_is_authoritative:
  assumes "valid_quadkey quadkey"
    and "path_exists e (canopy_local_path e quadkey)"
    and "open_rb e (canopy_local_path e quadkey) = Inr tile"
  shows "canopy_get e c quadkey =
           \<lparr>response = FileResponse tile ''image/tiff'', store = c,
            effects = [PathExists (canopy_local_path e quadkey),
                       OpenFile (canopy_local_path e quadkey)]\<rparr> \<and>
         cache_lookups (canopy_get e c quadkey) = 0 \<and>
         cache_writes (canopy_get e c quadkey) = 0 \<and>
         upstream_calls (canopy_get e c quadkey) = 0"
  using assms
  by (simp add: canopy_get_def Let_def cache_lookups_def cache_writes_def upstream_calls_def)

text \<open>The quadkey 01 with a local file, whatever the cache and the upstream service hold.\<close>

theorem canopy_local_file_is_authoritative_witness:
  "valid_quadkey ''01'' \<and>
   (\<forall>tile up c.
      canopy_get (env_tile_01 tile up) c ''01'' =
        \<lparr>response = FileResponse tile ''image/tiff'', store = c,
         effects = [PathExists ''/app/backend/data/canopy/01.tif'',
                    OpenFile ''/app/backend/data/canopy/01.tif'']\<rparr> \<and>
      cache_lookups (canopy_get (env_tile_01 tile up) c ''01'') = 0 \<and>
      cache_writes (canopy_get (env_tile_01 tile up) c ''01'') = 0 \<and>
      upstream_calls (canopy_get (env_tile_01 tile up) c ''01'') = 0)"
proof -
  have v: "valid_quadkey ''01''"
    by (simp add: valid_quadkey_def)
  have p: "path_exists (env_tile_01 tile up) (canopy_local_path (env_tile_01 tile up) ''01'')" for tile up
    by (simp add: path_01') (simp add: env_tile_01_def)
  have f: "open_rb (env_tile_01 tile up) (canopy_local_path (env_tile_01 tile up) ''01'') = Inr tile"
    for tile up
    by (simp add: path_01') (simp add: env_tile_01_def)
  note run = canopy_local_file_is_authoritative [OF v p f, unfolded path_01']
  show ?thesis
    by (rule conjI [OF v]) (intro allI, rule run)
qed

section \<open>Canopy: the upstream tier\<close>

lemma str_nat_small: "n < 10 \<Longrightarrow> str_nat n = [digit_char n]"
  by (simp add: str_nat.simps)

lemma str_nat_large: "10 \<le> n \<Longrightarrow> str_nat n = str_nat (n div 10) @ [digit_char (n mod 10)]"
  by (subst str_nat.simps) simp

lemmas digits_eval = str_nat_small str_nat_large digit_char_def

lemma canopy_get_upstream:
  assumes "canopy_reaches_upstream e c quadkey"
  shows "canopy_get e c quadkey =
    (let local_path = canopy_local_path e quadkey;
         cache_key = canopy_cache_key quadkey;
         req = canopy_request e quadkey;
         fail = (\<lambda>msg s.
                   \<lparr>response = Response (error_body msg) s, store = c,
                    effects = [PathExists local_path, CacheGet cache_key, Upstream req]\<rparr>)
     in case upstream e req of
          RaisesTimeout msg \<Rightarrow> fail msg 500
        | RaisesOther msg \<Rightarrow> fail msg 500
        | Returns r \<Rightarrow>
            if \<not> is_success r then
              (if status_code r = 404 then fail ''Tile not found'' 404
               else fail (''Tile fetch error: '' @ str_nat (status_code r)) 502)
            else if length (content r) < 25 * 1024 * 1024 then
              \<lparr>response = HttpResponse (PBytes (content r)) ''image/tiff'',
               store = c(cache_key \<mapsto> (PBytes (content r), now e + CACHE_TTL_CANOPY)),
               effects = [PathExists local_path, CacheGet cache_key, Upstream req,
                          CacheSet cache_key (PBytes (content r)) CACHE_TTL_CANOPY]\<rparr>
            else
              \<lparr>response = HttpResponse (PBytes (content r)) ''image/tiff'', store = c,
               effects = [PathExists local_path, CacheGet cache_key, Upstream req]\<rparr>)"
  using assms
  by (simp add: canopy_reaches_upstream_def canopy_get_def Let_def cache_set_def
        split: http_outcome.split)

lemma reaches_01:
  "canopy_reaches_upstream (env_no_files t up h) Map.empty ''01''"
  by (simp add: canopy_reaches_upstream_def valid_quadkey_def env_no_files_def cache_get_def)

lemma upstream_env_no_files: "upstream (env_no_files t up h) = up"
  by (simp add: env_no_files_def)

text \<open>
  C6. When a canopy request reaches the upstream tier (valid quadkey, no local file,
  nothing usable in the cache): an upstream response with status 404 is answered with
  404 (\<^verbatim>\<open>Tile not found\<close>); an upstream response with any other status outside 2xx
  is answered with 502, the upstream status in the message; and an exception of the
  client call (a timeout or any other) is answered with 500 and its text.
\<close>

theorem canopy_upstream_failures:
  assumes "canopy_reaches_upstream e c quadkey"
  shows
    "(upstream e (canopy_request e quadkey) = Returns r \<and> status_code r = 404 \<longrightarrow>
        response (canopy_get e c quadkey) = Response (error_body ''Tile not found'') 404) \<and>
     (upstream e (canopy_request e quadkey) = Returns r \<and> \<not> is_success r \<and>
        status_code r \<noteq> 404 \<longrightarrow>
        response (canopy_get e c quadkey) =
          Response (error_body (''Tile fetch error: '' @ str_nat (status_code r))) 502) \<and>
     (upstream e (canopy_request e quadkey) = RaisesTimeout msg \<or>
        upstream e (canopy_request e quadkey) = RaisesOther msg \<longrightarrow>
        response (canopy_get e c quadkey) = Response (error_body msg) 500)"
  by (auto simp: canopy_get_upstream [OF assms] Let_def is_success_def)

text \<open>Quadkey 01, empty cache, no local file; the upstream answers 404, answers 503, or fails.\<close>

theorem canopy_upstream_failures_witness:
  "\<forall>h. canopy_reaches_upstream (env_no_files 0 (\<lambda>_. status_only 404) h) Map.empty ''01'' \<and>
     response (canopy_get (env_no_files 0 (\<lambda>_. status_only 404) h) Map.empty ''01'') =
       Response (error_body ''Tile not found'') 404 \<and>
     response (canopy_get (env_no_files 0 (\<lambda>_. status_only 503) h) Map.empty ''01'') =
       Response (error_body ''Tile fetch error: 503'') 502 \<and>
     response (canopy_get (env_no_files 0 (\<lambda>_. RaisesOther ''Connection refused'') h)
         Map.empty ''01'') =
       Response (error_body ''Connection refused'') 500"
proof (intro allI conjI)
  fix h
  show "canopy_reaches_upstream (env_no_files 0 (\<lambda>_. status_only 404) h) Map.empty ''01''"
    by (rule reaches_01)
  show "response (canopy_get (env_no_files 0 (\<lambda>_. status_only 404) h) Map.empty ''01'') =
       Response (error_body ''Tile not found'') 404"
    using canopy_upstream_failures [OF reaches_01, of 0 "\<lambda>_. status_only 404" h
        "\<lparr>status_code = 404, content = [], json = Inl ''Expecting value''\<rparr>"]
    by (simp add: upstream_env_no_files status_only_def)
  show "response (canopy_get (env_no_files 0 (\<lambda>_. status_only 503) h) Map.empty ''01'') =
       Response (error_body ''Tile fetch error: 503'') 502"
    using canopy_upstream_failures [OF reaches_01, of 0 "\<lambda>_. status_only 503" h
        "\<lparr>status_code = 503, content = [], json = Inl ''Expecting value''\<rparr>"]
    by (simp add: upstream_env_no_files status_only_def is_success_def digits_eval)
  show "response (canopy_get (env_no_files 0 (\<lambda>_. RaisesOther ''Connection refused'') h)
         Map.empty ''01'') = Response (error_body ''Connection refused'') 500"
    using canopy_upstream_failures [OF reaches_01, of 0 "\<lambda>_. RaisesOther ''Connection refused''" h
        _ "''Connection refused''"]
    by (simp add: upstream_env_no_files)
qed

section \<open>Canopy: the size cap of the cache\<close>

lemma length_MiB25: "length MiB25 = 25 * 1024 * 1024"
  by (simp add: MiB25_def)

lemma canopy_still_reaches_upstream:
  assumes "canopy_reaches_upstream e c quadkey"
    and "now e \<le> now e'"
    and "\<not> path_exists e' (canopy_local_path e' quadkey)"
  shows "canopy_reaches_upstream e' c quadkey"
  using assms cache_get_later [of c "now e" "canopy_cache_key quadkey" "now e'"]
  by (simp add: canopy_reaches_upstream_def)

lemma canopy_upstream_called_once:
  assumes "canopy_reaches_upstream e c quadkey"
  shows "upstream_calls (canopy_get e c quadkey) = 1"
  by (simp add: canopy_get_upstream [OF assms] Let_def upstream_calls_def
      split: http_outcome.split)

text \<open>
  C5. When a canopy request reaches the upstream tier and the fetch succeeds (status
  2xx), the payload is returned with status 200 and content type \<^verbatim>\<open>image/tiff\<close>,
  whatever its size. It is written to the cache, with \<^verbatim>\<open>CACHE_TTL_CANOPY\<close>, exactly
  when it is shorter than 25 MiB. After a payload of 25 MiB or more the cache is as it
  was, so a later request for the same quadkey (again with no local file) reaches the
  upstream tier and calls the upstream service once more.
\<close>

theorem canopy_cache_size_cap:
  assumes "canopy_reaches_upstream e c quadkey"
    and "upstream e (canopy_request e quadkey) = Returns r"
    and "is_success r"
  shows
    "response (canopy_get e c quadkey) = HttpResponse (PBytes (content r)) ''image/tiff'' \<and>
     status_of (response (canopy_get e c quadkey)) = Some 200 \<and>
     (CacheSet (canopy_cache_key quadkey) (PBytes (content r)) CACHE_TTL_CANOPY
        \<in> set (effects (canopy_get e c quadkey))
      \<longleftrightarrow> length (content r) < 25 * 1024 * 1024) \<and>
     (length (content r) < 25 * 1024 * 1024 \<longrightarrow>
        store (canopy_get e c quadkey) =
          c(canopy_cache_key quadkey \<mapsto> (PBytes (content r), now e + CACHE_TTL_CANOPY))) \<and>
     (25 * 1024 * 1024 \<le> length (content r) \<longrightarrow>
        store (canopy_get e c quadkey) = c \<and>
        cache_writes (canopy_get e c quadkey) = 0 \<and>
        (\<forall>e'. now e \<le> now e' \<and> \<not> path_exists e' (canopy_local_path e' quadkey) \<longrightarrow>
           canopy_reaches_upstream e' (store (canopy_get e c quadkey)) quadkey \<and>
           upstream_calls (canopy_get e' (store (canopy_get e c quadkey)) quadkey) = 1))"
proof -
  note run = canopy_get_upstream [OF assms(1)]
  have a: "response (canopy_get e c quadkey) = HttpResponse (PBytes (content r)) ''image/tiff''"
    using assms(2,3) by (simp add: run Let_def)
  have b: "CacheSet (canopy_cache_key quadkey) (PBytes (content r)) CACHE_TTL_CANOPY
        \<in> set (effects (canopy_get e c quadkey))
      \<longleftrightarrow> length (content r) < 25 * 1024 * 1024"
    using assms(2,3) by (simp add: run Let_def)
  have s: "store (canopy_get e c quadkey) =
          c(canopy_cache_key quadkey \<mapsto> (PBytes (content r), now e + CACHE_TTL_CANOPY))"
    if "length (content r) < 25 * 1024 * 1024"
    using assms(2,3) that by (simp add: run Let_def)
  have big: "store (canopy_get e c quadkey) = c \<and> cache_writes (canopy_get e c quadkey) = 0"
    if "25 * 1024 * 1024 \<le> length (content r)"
    using assms(2,3) that by (simp add: run Let_def cache_writes_def)
  have again: "canopy_reaches_upstream e' (store (canopy_get e c quadkey)) quadkey \<and>
      upstream_calls (canopy_get e' (store (canopy_get e c quadkey)) quadkey) = 1"
    if "25 * 1024 * 1024 \<le> length (content r)"
      and "now e \<le> now e'" and "\<not> path_exists e' (canopy_local_path e' quadkey)" for e'
  proof -
    have "canopy_reaches_upstream e' c quadkey"
      using assms(1) that(2,3) by (rule canopy_still_reaches_upstream)
    then show ?thesis
      using big [OF that(1)] by (simp add: canopy_upstream_called_once)
  qed
  have st: "status_of (response (canopy_get e c quadkey)) = Some 200"
    by (simp add: a)
  have later: "\<forall>e'. now e \<le> now e' \<and> \<not> path_exists e' (canopy_local_path e' quadkey) \<longrightarrow>
           canopy_reaches_upstream e' (store (canopy_get e c quadkey)) quadkey \<and>
           upstream_calls (canopy_get e' (store (canopy_get e c quadkey)) quadkey) = 1"
    if "25 * 1024 * 1024 \<le> length (content r)"
  proof (intro allI impI)
    fix e'
    assume "now e \<le> now e' \<and> \<not> path_exists e' (canopy_local_path e' quadkey)"
    then show "canopy_reaches_upstream e' (store (canopy_get e c quadkey)) quadkey \<and>
           upstream_calls (canopy_get e' (store (canopy_get e c quadkey)) quadkey) = 1"
      using again [OF that, of e'] by (elim conjE)
  qed
  show ?thesis
  proof (intro conjI)
    show "response (canopy_get e c quadkey) = HttpResponse (PBytes (content r)) ''image/tiff''"
      by (rule a)
    show "status_of (response (canopy_get e c quadkey)) = Some 200"
      by (rule st)
    show "CacheSet (canopy_cache_key quadkey) (PBytes (content r)) CACHE_TTL_CANOPY
        \<in> set (effects (canopy_get e c quadkey))
      \<longleftrightarrow> length (content r) < 25 * 1024 * 1024"
      by (rule b)
    show "length (content r) < 25 * 1024 * 1024 \<longrightarrow>
        store (canopy_get e c quadkey) =
          c(canopy_cache_key quadkey \<mapsto> (PBytes (content r), now e + CACHE_TTL_CANOPY))"
      using s by (rule impI)
    show "25 * 1024 * 1024 \<le> length (content r) \<longrightarrow>
        store (canopy_get e c quadkey) = c \<and>
        cache_writes (canopy_get e c quadkey) = 0 \<and>
        (\<forall>e'. now e \<le> now e' \<and> \<not> path_exists e' (canopy_local_path e' quadkey) \<longrightarrow>
           canopy_reaches_upstream e' (store (canopy_get e c quadkey)) quadkey \<and>
           upstream_calls (canopy_get e' (store (canopy_get e c quadkey)) quadkey) = 1)"
    proof (rule impI)
      assume h: "25 * 1024 * 1024 \<le> length (content r)"
      show "store (canopy_get e c quadkey) = c \<and>
        cache_writes (canopy_get e c quadkey) = 0 \<and>
        (\<forall>e'. now e \<le> now e' \<and> \<not> path_exists e' (canopy_local_path e' quadkey) \<longrightarrow>
           canopy_reaches_upstream e' (store (canopy_get e c quadkey)) quadkey \<and>
           upstream_calls (canopy_get e' (store (canopy_get e c quadkey)) quadkey) = 1)"
        using big [OF h] later [OF h] by (intro conjI) (elim conjE, assumption)+
    qed
  qed
qed

text \<open>
  Quadkey 01, empty cache, no local file. A payload of exactly 25 MiB is returned and not
  stored, and the same request ten seconds later calls the upstream service again; a
  payload of three bytes is returned and stored.
\<close>

theorem canopy_cache_size_cap_witness:
  "\<forall>h. canopy_reaches_upstream (env_no_files 0 (\<lambda>_. ok_bytes MiB25) h) Map.empty ''01'' \<and>
     is_success \<lparr>status_code = 200, content = MiB25, json = Inl ''Expecting value''\<rparr> \<and>
     response (canopy_get (env_no_files 0 (\<lambda>_. ok_bytes MiB25) h) Map.empty ''01'') =
       HttpResponse (PBytes MiB25) ''image/tiff'' \<and>
     store (canopy_get (env_no_files 0 (\<lambda>_. ok_bytes MiB25) h) Map.empty ''01'') = Map.empty \<and>
     upstream_calls
       (canopy_get (env_no_files 10 (\<lambda>_. ok_bytes MiB25) h)
          (store (canopy_get (env_no_files 0 (\<lambda>_. ok_bytes MiB25) h) Map.empty ''01'')) ''01'') = 1 \<and>
     response (canopy_get (env_no_files 0 (\<lambda>_. ok_bytes [1, 2, 3]) h) Map.empty ''01'') =
       HttpResponse (PBytes [1, 2, 3]) ''image/tiff'' \<and>
     store (canopy_get (env_no_files 0 (\<lambda>_. ok_bytes [1, 2, 3]) h) Map.empty ''01'') =
       [canopy_cache_key ''01'' \<mapsto> (PBytes [1, 2, 3], CACHE_TTL_CANOPY)]"
proof (intro allI)
  fix h
  let ?big = "env_no_files 0 (\<lambda>_. ok_bytes MiB25) h"
  let ?later = "env_no_files 10 (\<lambda>_. ok_bytes MiB25) h"
  let ?small = "env_no_files 0 (\<lambda>_. ok_bytes [1, 2, 3]) h"
  let ?r = "\<lambda>b. \<lparr>status_code = 200, content = b, json = Inl ''Expecting value''\<rparr>"
  have ok: "is_success (?r b)" for b
    by (simp add: is_success_def)
  have up_big: "upstream ?big (canopy_request ?big ''01'') = Returns (?r MiB25)"
    by (simp add: upstream_env_no_files ok_bytes_def)
  have up_small: "upstream ?small (canopy_request ?small ''01'') = Returns (?r [1, 2, 3])"
    by (simp add: upstream_env_no_files ok_bytes_def)
  note big = canopy_cache_size_cap [OF reaches_01 up_big ok]
  note small = canopy_cache_size_cap [OF reaches_01 up_small ok]
  have le: "25 * 1024 * 1024 \<le> length (content (?r MiB25))"
    by (simp add: length_MiB25)
  have lt: "length (content (?r [1, 2, 3])) < 25 * 1024 * 1024"
    by simp
  note big_end = big [THEN conjunct2, THEN conjunct2, THEN conjunct2, THEN conjunct2, THEN mp, OF le]
  have cond: "now ?big \<le> now ?later \<and> \<not> path_exists ?later (canopy_local_path ?later ''01'')"
    by (simp add: env_no_files_def)
  note again = big_end [THEN conjunct2, THEN conjunct2, THEN spec, THEN mp, OF cond, THEN conjunct2]
  have st: "store (canopy_get ?small Map.empty ''01'') =
       [canopy_cache_key ''01'' \<mapsto> (PBytes [1, 2, 3], CACHE_TTL_CANOPY)]"
    using small [THEN conjunct2, THEN conjunct2, THEN conjunct2, THEN conjunct1, THEN mp, OF lt]
    by (simp add: env_no_files_def)
  show "canopy_reaches_upstream ?big Map.empty ''01'' \<and>
     is_success (?r MiB25) \<and>
     response (canopy_get ?big Map.empty ''01'') = HttpResponse (PBytes MiB25) ''image/tiff'' \<and>
     store (canopy_get ?big Map.empty ''01'') = Map.empty \<and>
     upstream_calls (canopy_get ?later (store (canopy_get ?big Map.empty ''01'')) ''01'') = 1 \<and>
     response (canopy_get ?small Map.empty ''01'') = HttpResponse (PBytes [1, 2, 3]) ''image/tiff'' \<and>
     store (canopy_get ?small Map.empty ''01'') =
       [canopy_cache_key ''01'' \<mapsto> (PBytes [1, 2, 3], CACHE_TTL_CANOPY)]"
    using reaches_01 [of 0 "\<lambda>_. ok_bytes MiB25" h] ok [of MiB25] big [THEN conjunct1]
      big_end [THEN conjunct1] again small [THEN conjunct1] st
    by simp
qed

section \<open>Overpass and Climate: the upstream tier\<close>

lemma overpass_post_upstream:
  assumes "overpass_reaches_upstream e c query"
  shows "overpass_post e c query =
    (let cache_key = overpass_cache_key e query;
         req = overpass_request e query;
         fail = (\<lambda>msg s. \<lparr>response = Response (error_body msg) s, store = c,
                           effects = [CacheGet cache_key, Upstream req]\<rparr>)
     in case upstream e req of
          RaisesTimeout _ \<Rightarrow> fail ''Overpass API timeout'' 504
        | RaisesOther msg \<Rightarrow> fail msg 500
        | Returns r \<Rightarrow>
            if \<not> is_success r then
              fail (''Overpass API error: '' @ str_nat (status_code r)) 502
            else
              (case json r of
                 Inl msg \<Rightarrow> fail msg 500
               | Inr data \<Rightarrow>
                   \<lparr>response = Response data 200,
                    store = c(cache_key \<mapsto> (data, now e + CACHE_TTL_OVERPASS)),
                    effects = [CacheGet cache_key, Upstream req,
                               CacheSet cache_key data CACHE_TTL_OVERPASS]\<rparr>))"
  using assms
  by (simp add: overpass_reaches_upstream_def overpass_post_def Let_def cache_set_def
      split: http_outcome.split sum.split)

lemma overpass_post_hit:
  assumes "query \<noteq> []" and "truthy (cache_get c (now e) (overpass_cache_key e query))"
  shows "overpass_post e c query =
    \<lparr>response = Response (cache_get c (now e) (overpass_cache_key e query)) 200, store = c,
     effects = [CacheGet (overpass_cache_key e query)]\<rparr>"
  using assms by (simp add: overpass_post_def Let_def)

lemma climate_get_parsed:
  assumes "lat = Some lat_s" "lng = Some lng_s" "lat_s \<noteq> []" "lng_s \<noteq> []"
    and "float_of_str e lat_s = Some lat_f" "float_of_str e lng_s = Some lng_f"
  shows "climate_get e c lat lng = climate_fetch e c lat_f lng_f"
  using assms by (simp add: climate_get_def)

lemma climate_get_upstream:
  assumes "climate_reaches_upstream e c lat lng lat_f lng_f"
  shows "climate_get e c lat lng =
    (let cache_key = climate_cache_key lat_f lng_f;
         req = climate_request e lat_f lng_f;
         fail = (\<lambda>msg s. \<lparr>response = Response (error_body msg) s, store = c,
                           effects = [CacheGet cache_key, Upstream req]\<rparr>)
     in case upstream e req of
          RaisesTimeout _ \<Rightarrow> fail ''Climate API timeout'' 504
        | RaisesOther msg \<Rightarrow> fail msg 500
        | Returns r \<Rightarrow>
            if \<not> is_success r then
              fail (''Climate API error: '' @ str_nat (status_code r)) 502
            else
              (case json r of
                 Inl msg \<Rightarrow> fail msg 500
               | Inr data \<Rightarrow>
                   \<lparr>response = Response data 200,
                    store = c(cache_key \<mapsto> (data, now e + CACHE_TTL_CLIMATE)),
                    effects = [CacheGet cache_key, Upstream req,
                               CacheSet cache_key data CACHE_TTL_CLIMATE]\<rparr>))"
proof -
  from assms obtain lat_s lng_s where p: "lat = Some lat_s" "lng = Some lng_s" "lat_s \<noteq> []"
    "lng_s \<noteq> []" "float_of_str e lat_s = Some lat_f" "float_of_str e lng_s = Some lng_f"
    and miss: "\<not> truthy (cache_get c (now e) (climate_cache_key lat_f lng_f))"
    unfolding climate_reaches_upstream_def by blast
  show ?thesis
    using miss
    by (simp add: climate_get_parsed [OF p] climate_fetch_def Let_def cache_set_def
        split: http_outcome.split sum.split)
qed

lemma overpass_upstream_called_once:
  assumes "overpass_reaches_upstream e c query"
  shows "effects (overpass_post e c query) \<noteq> [] \<and>
         Upstream (overpass_request e query) \<in> set (effects (overpass_post e c query)) \<and>
         upstream_calls (overpass_post e c query) = 1"
  by (simp add: overpass_post_upstream [OF assms] Let_def upstream_calls_def
      split: http_outcome.split sum.split)

lemma climate_upstream_called_once:
  assumes "climate_reaches_upstream e c lat lng lat_f lng_f"
  shows "Upstream (climate_request e lat_f lng_f) \<in> set (effects (climate_get e c lat lng)) \<and>
         upstream_calls (climate_get e c lat lng) = 1"
  by (simp add: climate_get_upstream [OF assms] Let_def upstream_calls_def
      split: http_outcome.split sum.split)

lemma canopy_upstream_in_effects:
  assumes "canopy_reaches_upstream e c quadkey"
  shows "Upstream (canopy_request e quadkey) \<in> set (effects (canopy_get e c quadkey))"
  by (simp add: canopy_get_upstream [OF assms] Let_def split: http_outcome.split)

section \<open>Overpass: repeating a query\<close>

lemma env_no_files_simps:
  "now (env_no_files t up h) = t"
  "upstream (env_no_files t up h) = up"
  "sha256_hexdigest (env_no_files t up h) = h"
  "float_of_str (env_no_files t up h) = two_floats"
  "path_exists (env_no_files t up h) p = False"
  "conf (env_no_files t up h) = default_settings ''/app/backend''"
  by (simp_all add: env_no_files_def)

lemma overpass_cache_key_env:
  "sha256_hexdigest e2 = sha256_hexdigest e1 \<Longrightarrow> overpass_cache_key e2 query = overpass_cache_key e1 query"
  by (simp add: overpass_cache_key_def)

lemma overpass_reaches_upstream_empty:
  "query \<noteq> [] \<Longrightarrow> overpass_reaches_upstream e Map.empty query"
  by (simp add: overpass_reaches_upstream_def cache_get_def)

text \<open>
  C2, as the code has it. Let the first request for a non-empty query reach the upstream
  service, succeed, and store the parsed JSON \<open>data\<close>. If \<open>data\<close> is truthy (not
  \<^verbatim>\<open>{}\<close>, \<^verbatim>\<open>[]\<close>, \<^verbatim>\<open>""\<close>, \<^verbatim>\<open>0\<close>, \<^verbatim>\<open>false\<close> or \<^verbatim>\<open>null\<close>), then repeating the query
  while that entry is in the cache and unexpired returns \<open>data\<close> as stored, with status
  200, after one cache lookup and no upstream call, and leaves the cache as it was.
\<close>

theorem overpass_repeat_served_from_cache:
  assumes "overpass_reaches_upstream e1 c1 query"
    and "upstream e1 (overpass_request e1 query) = Returns r"
    and "is_success r"
    and "json r = Inr data"
    and "truthy data"
    and "sha256_hexdigest e2 = sha256_hexdigest e1"
    and "c2 (overpass_cache_key e1 query) =
           store (overpass_post e1 c1 query) (overpass_cache_key e1 query)"
    and "now e2 < now e1 + CACHE_TTL_OVERPASS"
  shows
    "response (overpass_post e1 c1 query) = Response data 200 \<and>
     store (overpass_post e1 c1 query) (overpass_cache_key e1 query) =
       Some (data, now e1 + CACHE_TTL_OVERPASS) \<and>
     overpass_post e2 c2 query =
       \<lparr>response = Response data 200, store = c2,
        effects = [CacheGet (overpass_cache_key e1 query)]\<rparr> \<and>
     upstream_calls (overpass_post e2 c2 query) = 0"
proof -
  note first = overpass_post_upstream [OF assms(1)]
  have a: "response (overpass_post e1 c1 query) = Response data 200"
    using assms(2-4) by (simp add: first Let_def)
  have b: "store (overpass_post e1 c1 query) (overpass_cache_key e1 query) =
       Some (data, now e1 + CACHE_TTL_OVERPASS)"
    using assms(2-4) by (simp add: first Let_def)
  have k: "overpass_cache_key e2 query = overpass_cache_key e1 query"
    using assms(6) by (rule overpass_cache_key_env)
  have g: "cache_get c2 (now e2) (overpass_cache_key e2 query) = data"
    using assms(7,8) b by (simp add: k cache_get_def)
  have q: "query \<noteq> []"
    using assms(1) by (simp add: overpass_reaches_upstream_def)
  have h: "overpass_post e2 c2 query =
       \<lparr>response = Response data 200, store = c2,
        effects = [CacheGet (overpass_cache_key e1 query)]\<rparr>"
  proof -
    have "truthy (cache_get c2 (now e2) (overpass_cache_key e2 query))"
      using assms(5) by (simp only: g)
    from overpass_post_hit [OF q this] show ?thesis
      by (simp add: g [unfolded k] k)
  qed
  have u: "upstream_calls (overpass_post e2 c2 query) = 0"
    by (simp add: h upstream_calls_def)
  show ?thesis
    by (intro conjI a b h u)
qed

text \<open>
  A query on an empty cache whose upstream answer is a non-empty object; the same query
  one hour later is served from the cache.
\<close>

theorem overpass_repeat_served_from_cache_witness:
  "\<forall>h. overpass_reaches_upstream
         (env_no_files 0 (\<lambda>_. ok_json (PDict [(''elements'', PList [])])) h) Map.empty
         ''[out:json];node(1);out;'' \<and>
       truthy (PDict [(''elements'', PList [])]) \<and>
       (3600::nat) < 0 + CACHE_TTL_OVERPASS \<and>
       overpass_post (env_no_files 3600 (\<lambda>_. RaisesOther ''unreachable'') h)
         (store (overpass_post (env_no_files 0 (\<lambda>_. ok_json (PDict [(''elements'', PList [])])) h)
            Map.empty ''[out:json];node(1);out;''))
         ''[out:json];node(1);out;'' =
       \<lparr>response = Response (PDict [(''elements'', PList [])]) 200,
        store = store (overpass_post
            (env_no_files 0 (\<lambda>_. ok_json (PDict [(''elements'', PList [])])) h)
            Map.empty ''[out:json];node(1);out;''),
        effects = [CacheGet (overpass_cache_key
            (env_no_files 0 (\<lambda>_. ok_json (PDict [(''elements'', PList [])])) h)
            ''[out:json];node(1);out;'')]\<rparr>"
proof (intro allI)
  fix h
  let ?data = "PDict [(''elements'', PList [])]"
  let ?q = "''[out:json];node(1);out;''"
  let ?e1 = "env_no_files 0 (\<lambda>_. ok_json ?data) h"
  let ?e2 = "env_no_files 3600 (\<lambda>_. RaisesOther ''unreachable'') h"
  let ?r = "\<lparr>status_code = 200, content = [], json = Inr ?data\<rparr>"
  have reach: "overpass_reaches_upstream ?e1 Map.empty ?q"
    by (rule overpass_reaches_upstream_empty) simp
  have up: "upstream ?e1 (overpass_request ?e1 ?q) = Returns ?r"
    by (simp add: env_no_files_simps ok_json_def)
  have ok: "is_success ?r"
    by (simp add: is_success_def)
  have js: "json ?r = Inr ?data"
    by simp
  have tr: "truthy ?data"
    by simp
  have hs: "sha256_hexdigest ?e2 = sha256_hexdigest ?e1"
    by (simp add: env_no_files_simps)
  have ttl: "now ?e2 < now ?e1 + CACHE_TTL_OVERPASS"
    by (simp add: env_no_files_simps CACHE_TTL_OVERPASS_def)
  have ttl': "(3600::nat) < 0 + CACHE_TTL_OVERPASS"
    by (simp add: CACHE_TTL_OVERPASS_def)
  note run = overpass_repeat_served_from_cache
    [where ?c2.0 = "store (overpass_post ?e1 Map.empty ?q)", OF reach up ok js tr hs refl ttl]
  show "overpass_reaches_upstream ?e1 Map.empty ?q \<and> truthy ?data \<and>
       (3600::nat) < 0 + CACHE_TTL_OVERPASS \<and>
       overpass_post ?e2 (store (overpass_post ?e1 Map.empty ?q)) ?q =
       \<lparr>response = Response ?data 200, store = store (overpass_post ?e1 Map.empty ?q),
        effects = [CacheGet (overpass_cache_key ?e1 ?q)]\<rparr>"
    by (intro conjI reach tr ttl' run [THEN conjunct2, THEN conjunct2, THEN conjunct1])
qed

text \<open>
  C2 as stated fails when the stored JSON is falsy. The upstream service answers the
  query with the empty object; the first request stores it, and the same query repeated
  at once, with that entry in the cache and unexpired, calls the upstream service again.
\<close>

theorem overpass_repeat_counterexample:
  "\<forall>h. response (overpass_post (env_no_files 0 (\<lambda>_. ok_json (PDict [])) h) Map.empty
          ''[out:json];node(1);out;'') = Response (PDict []) 200 \<and>
       store (overpass_post (env_no_files 0 (\<lambda>_. ok_json (PDict [])) h) Map.empty
          ''[out:json];node(1);out;'')
         (overpass_cache_key (env_no_files 0 (\<lambda>_. ok_json (PDict [])) h)
            ''[out:json];node(1);out;'') = Some (PDict [], CACHE_TTL_OVERPASS) \<and>
       upstream_calls
         (overpass_post (env_no_files 0 (\<lambda>_. ok_json (PDict [])) h)
            (store (overpass_post (env_no_files 0 (\<lambda>_. ok_json (PDict [])) h) Map.empty
               ''[out:json];node(1);out;''))
            ''[out:json];node(1);out;'') = 1"
proof (intro allI)
  fix h
  let ?q = "''[out:json];node(1);out;''"
  let ?e = "env_no_files 0 (\<lambda>_. ok_json (PDict [])) h"
  have reach: "overpass_reaches_upstream ?e Map.empty ?q"
    by (rule overpass_reaches_upstream_empty) simp
  have first: "overpass_post ?e Map.empty ?q =
      \<lparr>response = Response (PDict []) 200,
       store = [overpass_cache_key ?e ?q \<mapsto> (PDict [], CACHE_TTL_OVERPASS)],
       effects = [CacheGet (overpass_cache_key ?e ?q), Upstream (overpass_request ?e ?q),
                  CacheSet (overpass_cache_key ?e ?q) (PDict []) CACHE_TTL_OVERPASS]\<rparr>"
    by (subst overpass_post_upstream [OF reach])
      (simp add: Let_def env_no_files_simps ok_json_def is_success_def)
  have again: "overpass_reaches_upstream ?e (store (overpass_post ?e Map.empty ?q)) ?q"
    by (simp add: first overpass_reaches_upstream_def cache_get_def)
  show "response (overpass_post ?e Map.empty ?q) = Response (PDict []) 200 \<and>
       store (overpass_post ?e Map.empty ?q) (overpass_cache_key ?e ?q) =
         Some (PDict [], CACHE_TTL_OVERPASS) \<and>
       upstream_calls (overpass_post ?e (store (overpass_post ?e Map.empty ?q)) ?q) = 1"
    using overpass_upstream_called_once [OF again] by (simp add: first)
qed

section \<open>Falsy cache entries\<close>

lemma two_floats_simps:
  "two_floats ''37.774'' = Some (Finite (37774 / 1000))"
  "two_floats ''-122.419'' = Some (Finite (- 122419 / 1000))"
  by (simp_all add: two_floats_def)

text \<open>
  C9. In each of the three views, an entry that is in the cache and unexpired under the
  request's key but whose value is falsy is treated as a miss: \<^verbatim>\<open>cache.get\<close> returns the
  value, and the run goes on to call the upstream service (for canopy, when there is no
  local file).
\<close>

theorem falsy_cache_entry_is_a_miss:
  assumes "c key = Some (v, expires)" and "now e < expires" and "\<not> truthy v"
  shows
    "cache_get c (now e) key = v \<and>
     (query \<noteq> [] \<and> key = overpass_cache_key e query \<longrightarrow>
        Upstream (overpass_request e query) \<in> set (effects (overpass_post e c query)) \<and>
        upstream_calls (overpass_post e c query) = 1) \<and>
     (lat = Some lat_s \<and> lng = Some lng_s \<and> lat_s \<noteq> [] \<and> lng_s \<noteq> [] \<and>
      float_of_str e lat_s = Some lat_f \<and> float_of_str e lng_s = Some lng_f \<and>
      key = climate_cache_key lat_f lng_f \<longrightarrow>
        Upstream (climate_request e lat_f lng_f) \<in> set (effects (climate_get e c lat lng)) \<and>
        upstream_calls (climate_get e c lat lng) = 1) \<and>
     (valid_quadkey quadkey \<and> \<not> path_exists e (canopy_local_path e quadkey) \<and>
      key = canopy_cache_key quadkey \<longrightarrow>
        Upstream (canopy_request e quadkey) \<in> set (effects (canopy_get e c quadkey)) \<and>
        upstream_calls (canopy_get e c quadkey) = 1)"
proof -
  have g: "cache_get c (now e) key = v"
    using assms(1,2) by (rule cache_get_hit)
  have miss: "\<not> truthy (cache_get c (now e) key)"
    using assms(3) by (simp add: g)
  have o: "Upstream (overpass_request e query) \<in> set (effects (overpass_post e c query)) \<and>
        upstream_calls (overpass_post e c query) = 1"
    if "query \<noteq> [] \<and> key = overpass_cache_key e query"
  proof -
    have "overpass_reaches_upstream e c query"
      using that miss by (simp add: overpass_reaches_upstream_def)
    then show ?thesis
      using overpass_upstream_called_once by blast
  qed
  have cl: "Upstream (climate_request e lat_f lng_f) \<in> set (effects (climate_get e c lat lng)) \<and>
        upstream_calls (climate_get e c lat lng) = 1"
    if "lat = Some lat_s \<and> lng = Some lng_s \<and> lat_s \<noteq> [] \<and> lng_s \<noteq> [] \<and>
      float_of_str e lat_s = Some lat_f \<and> float_of_str e lng_s = Some lng_f \<and>
      key = climate_cache_key lat_f lng_f"
  proof -
    have "climate_reaches_upstream e c lat lng lat_f lng_f"
      using that miss by (simp add: climate_reaches_upstream_def)
    then show ?thesis
      by (rule climate_upstream_called_once)
  qed
  have ca: "Upstream (canopy_request e quadkey) \<in> set (effects (canopy_get e c quadkey)) \<and>
        upstream_calls (canopy_get e c quadkey) = 1"
    if "valid_quadkey quadkey \<and> \<not> path_exists e (canopy_local_path e quadkey) \<and>
      key = canopy_cache_key quadkey"
  proof -
    have "canopy_reaches_upstream e c quadkey"
      using that miss by (simp add: canopy_reaches_upstream_def)
    then show ?thesis
      by (simp add: canopy_upstream_in_effects canopy_upstream_called_once)
  qed
  from g o cl ca show ?thesis
    by blast
qed

text \<open>
  An unexpired entry holding the empty object, the empty list and the empty byte string,
  under the key of an Overpass, a Climate and a Canopy request: each run calls upstream.
\<close>

theorem falsy_cache_entry_is_a_miss_witness:
  "\<forall>h up.
     upstream_calls
       (overpass_post (env_no_files 5 up h)
          [overpass_cache_key (env_no_files 5 up h) ''[out:json];node(1);out;'' \<mapsto> (PDict [], 100)]
          ''[out:json];node(1);out;'') = 1 \<and>
     upstream_calls
       (climate_get (env_no_files 5 up h)
          [climate_cache_key (Finite (37774 / 1000)) (Finite (- 122419 / 1000)) \<mapsto> (PList [], 100)]
          (Some ''37.774'') (Some ''-122.419'')) = 1 \<and>
     upstream_calls
       (canopy_get (env_no_files 5 up h) [canopy_cache_key ''01'' \<mapsto> (PBytes [], 100)] ''01'') = 1"
proof (intro allI conjI)
  fix h up
  let ?e = "env_no_files 5 up h"
  have t: "now ?e < 100"
    by (simp add: env_no_files_simps)
  have f: "\<not> truthy (PDict [])" "\<not> truthy (PList [])" "\<not> truthy (PBytes [])"
    by simp_all
  let ?q = "''[out:json];node(1);out;''"
  let ?k = "climate_cache_key (Finite (37774 / 1000)) (Finite (- 122419 / 1000))"
  have in1: "[overpass_cache_key ?e ?q \<mapsto> (PDict [], 100::nat)] (overpass_cache_key ?e ?q) = Some (PDict [], 100)"
    by simp
  have in2: "[?k \<mapsto> (PList [], 100::nat)] ?k = Some (PList [], 100)"
    by simp
  have in3: "[canopy_cache_key ''01'' \<mapsto> (PBytes [], 100::nat)] (canopy_cache_key ''01'') = Some (PBytes [], 100)"
    by simp
  have "?q \<noteq> [] \<and> overpass_cache_key ?e ?q = overpass_cache_key ?e ?q"
    by simp
  with falsy_cache_entry_is_a_miss [where c = "[overpass_cache_key ?e ?q \<mapsto> (PDict [], 100)]"
      and key = "overpass_cache_key ?e ?q" and query = ?q, OF in1 t f(1)]
  show "upstream_calls (overpass_post ?e [overpass_cache_key ?e ?q \<mapsto> (PDict [], 100)] ?q) = 1"
    by blast
  have "Some ''37.774'' = Some ''37.774'' \<and> Some ''-122.419'' = Some ''-122.419'' \<and>
      ''37.774'' \<noteq> [] \<and> ''-122.419'' \<noteq> [] \<and>
      float_of_str ?e ''37.774'' = Some (Finite (37774 / 1000)) \<and>
      float_of_str ?e ''-122.419'' = Some (Finite (- 122419 / 1000)) \<and> ?k = ?k"
    by (simp add: env_no_files_simps two_floats_simps)
  with falsy_cache_entry_is_a_miss [where c = "[?k \<mapsto> (PList [], 100)]" and key = ?k, OF in2 t f(2)]
  show "upstream_calls (climate_get ?e [?k \<mapsto> (PList [], 100)] (Some ''37.774'') (Some ''-122.419'')) = 1"
    by blast
  have "valid_quadkey ''01'' \<and> \<not> path_exists ?e (canopy_local_path ?e ''01'') \<and>
      canopy_cache_key ''01'' = canopy_cache_key ''01''"
    by (simp add: valid_quadkey_def env_no_files_simps)
  with falsy_cache_entry_is_a_miss [where c = "[canopy_cache_key ''01'' \<mapsto> (PBytes [], 100)]"
      and key = "canopy_cache_key ''01''", OF in3 t f(3)]
  show "upstream_calls (canopy_get ?e [canopy_cache_key ''01'' \<mapsto> (PBytes [], 100)] ''01'') = 1"
    by blast
qed

section \<open>Upstream timeouts\<close>

text \<open>
  C3. When the upstream call raises \<^verbatim>\<open>httpx.TimeoutException\<close>, the Overpass and the
  Climate view answer with status 504 and the bodies
  \<^verbatim>\<open>{"error": "Overpass API timeout"}\<close> and \<^verbatim>\<open>{"error": "Climate API timeout"}\<close>.
  The Canopy view has no clause for the timeout: its \<^verbatim>\<open>except Exception\<close> catches it,
  and the answer is status 500 with the exception's text as the error.
\<close>

theorem upstream_timeout_status:
  "(overpass_reaches_upstream e c query \<and>
      upstream e (overpass_request e query) = RaisesTimeout msg \<longrightarrow>
      response (overpass_post e c query) = Response (error_body ''Overpass API timeout'') 504) \<and>
   (climate_reaches_upstream e c lat lng lat_f lng_f \<and>
      upstream e (climate_request e lat_f lng_f) = RaisesTimeout msg \<longrightarrow>
      response (climate_get e c lat lng) = Response (error_body ''Climate API timeout'') 504) \<and>
   (canopy_reaches_upstream e c quadkey \<and>
      upstream e (canopy_request e quadkey) = RaisesTimeout msg \<longrightarrow>
      response (canopy_get e c quadkey) = Response (error_body msg) 500)"
proof (intro conjI impI)
  assume "overpass_reaches_upstream e c query \<and>
      upstream e (overpass_request e query) = RaisesTimeout msg"
  then show "response (overpass_post e c query) = Response (error_body ''Overpass API timeout'') 504"
    by (simp add: overpass_post_upstream Let_def)
next
  assume "climate_reaches_upstream e c lat lng lat_f lng_f \<and>
      upstream e (climate_request e lat_f lng_f) = RaisesTimeout msg"
  then have r: "climate_reaches_upstream e c lat lng lat_f lng_f"
    and u: "upstream e (climate_request e lat_f lng_f) = RaisesTimeout msg"
    by simp_all
  show "response (climate_get e c lat lng) = Response (error_body ''Climate API timeout'') 504"
    using u by (simp add: climate_get_upstream [OF r] Let_def)
next
  assume "canopy_reaches_upstream e c quadkey \<and>
      upstream e (canopy_request e quadkey) = RaisesTimeout msg"
  then show "response (canopy_get e c quadkey) = Response (error_body msg) 500"
    by (simp add: canopy_get_upstream Let_def)
qed

text \<open>
  An empty cache, no local file, and an upstream service that times out: 504 from
  Overpass and Climate, 500 from Canopy.
\<close>

theorem upstream_timeout_status_witness:
  "\<forall>h. response (overpass_post (env_no_files 0 (\<lambda>_. RaisesTimeout ''timed out'') h) Map.empty
            ''[out:json];node(1);out;'') =
         Response (error_body ''Overpass API timeout'') 504 \<and>
       response (climate_get (env_no_files 0 (\<lambda>_. RaisesTimeout ''timed out'') h) Map.empty
            (Some ''37.774'') (Some ''-122.419'')) =
         Response (error_body ''Climate API timeout'') 504 \<and>
       response (canopy_get (env_no_files 0 (\<lambda>_. RaisesTimeout ''timed out'') h) Map.empty ''01'') =
         Response (error_body ''timed out'') 500 \<and>
       status_of (response (canopy_get (env_no_files 0 (\<lambda>_. RaisesTimeout ''timed out'') h)
            Map.empty ''01'')) \<noteq> Some 504"
proof (intro allI)
  fix h
  let ?e = "env_no_files 0 (\<lambda>_. RaisesTimeout ''timed out'') h"
  let ?q = "''[out:json];node(1);out;''"
  let ?lat = "Finite (37774 / 1000)" and ?lng = "Finite (- 122419 / 1000)"
  have o: "overpass_reaches_upstream ?e Map.empty ?q \<and>
      upstream ?e (overpass_request ?e ?q) = RaisesTimeout ''timed out''"
    by (simp add: overpass_reaches_upstream_empty env_no_files_simps)
  have cl: "climate_reaches_upstream ?e Map.empty (Some ''37.774'') (Some ''-122.419'') ?lat ?lng \<and>
      upstream ?e (climate_request ?e ?lat ?lng) = RaisesTimeout ''timed out''"
    by (simp add: climate_reaches_upstream_def env_no_files_simps two_floats_simps cache_get_def)
  have ca: "canopy_reaches_upstream ?e Map.empty ''01'' \<and>
      upstream ?e (canopy_request ?e ''01'') = RaisesTimeout ''timed out''"
    by (simp add: reaches_01 env_no_files_simps)
  note t = upstream_timeout_status [of ?e Map.empty ?q "''timed out''" "Some ''37.774''"
      "Some ''-122.419''" ?lat ?lng "''01''"]
  note t1 = t [THEN conjunct1, THEN mp, OF o]
  note t2 = t [THEN conjunct2, THEN conjunct1, THEN mp, OF cl]
  note t3 = t [THEN conjunct2, THEN conjunct2, THEN mp, OF ca]
  have t4: "status_of (response (canopy_get ?e Map.empty ''01'')) \<noteq> Some 504"
    by (simp add: t3)
  show "response (overpass_post ?e Map.empty ?q) = Response (error_body ''Overpass API timeout'') 504 \<and>
       response (climate_get ?e Map.empty (Some ''37.774'') (Some ''-122.419'')) =
         Response (error_body ''Climate API timeout'') 504 \<and>
       response (canopy_get ?e Map.empty ''01'') = Response (error_body ''timed out'') 500 \<and>
       status_of (response (canopy_get ?e Map.empty ''01'')) \<noteq> Some 504"
    by (intro conjI t1 t2 t3 t4)
qed

section \<open>Errors leave the cache unchanged\<close>

lemma overpass_writes_only_with_payload:
  "writes_only_with_payload e c (overpass_post e c query)"
proof (cases "overpass_reaches_upstream e c query")
  case True
  show ?thesis
    by (simp add: overpass_post_upstream [OF True] Let_def writes_only_with_payload_def
        cache_writes_def error_status_def answers_fetched_payload_def
        split: http_outcome.split sum.split)
next
  case False
  then consider "query = []" | "query \<noteq> []"
      "truthy (cache_get c (now e) (overpass_cache_key e query))"
    by (auto simp: overpass_reaches_upstream_def)
  then show ?thesis
  proof cases
    case 1
    then show ?thesis
      by (simp add: overpass_post_def writes_only_with_payload_def cache_writes_def)
  next
    case 2
    then show ?thesis
      by (simp add: overpass_post_hit writes_only_with_payload_def cache_writes_def)
  qed
qed

lemma climate_fetch_writes_only_with_payload:
  "writes_only_with_payload e c (climate_fetch e c lat_f lng_f)"
  by (simp add: climate_fetch_def Let_def writes_only_with_payload_def cache_set_def
      cache_writes_def error_status_def answers_fetched_payload_def
      split: http_outcome.split sum.split)

lemma climate_writes_only_with_payload:
  "writes_only_with_payload e c (climate_get e c lat lng)"
proof -
  have bad: "writes_only_with_payload e c
      \<lparr>response = Response (error_body msg) 400, store = c, effects = []\<rparr>" for msg
    by (simp add: writes_only_with_payload_def cache_writes_def)
  show ?thesis
    by (simp add: climate_get_def bad climate_fetch_writes_only_with_payload
        split: option.split)
qed

lemma canopy_writes_only_with_payload:
  "writes_only_with_payload e c (canopy_get e c quadkey)"
proof (cases "canopy_reaches_upstream e c quadkey")
  case True
  show ?thesis
    by (simp add: canopy_get_upstream [OF True] Let_def writes_only_with_payload_def
        cache_writes_def error_status_def answers_fetched_payload_def
        split: http_outcome.split)
next
  case False
  then consider "\<not> valid_quadkey quadkey"
    | "valid_quadkey quadkey" "path_exists e (canopy_local_path e quadkey)"
    | "valid_quadkey quadkey" "\<not> path_exists e (canopy_local_path e quadkey)"
      "truthy (cache_get c (now e) (canopy_cache_key quadkey))"
    by (auto simp: canopy_reaches_upstream_def)
  then show ?thesis
  proof cases
    case 1
    then show ?thesis
      by (simp add: canopy_get_def writes_only_with_payload_def cache_writes_def)
  next
    case 2
    then show ?thesis
      by (simp add: canopy_get_def Let_def writes_only_with_payload_def cache_writes_def
          split: sum.split)
  next
    case 3
    then show ?thesis
      by (simp add: canopy_get_def Let_def writes_only_with_payload_def cache_writes_def)
  qed
qed

text \<open>
  C10. Whatever the request to one of the three views, a response with status 400, 404,
  500, 502 or 504 comes from a run that makes no cache write and leaves the cache store
  as it was. A run that writes to the cache (or ends with another store than it started
  with) answers with status 200 and with the payload it has just fetched from upstream.
\<close>

theorem errors_leave_cache_unchanged:
  "(status_of (response (proxy_view e c req)) = Some s \<and> s \<in> {400, 404, 500, 502, 504} \<longrightarrow>
      store (proxy_view e c req) = c \<and> cache_writes (proxy_view e c req) = 0) \<and>
   (store (proxy_view e c req) \<noteq> c \<or> cache_writes (proxy_view e c req) \<noteq> 0 \<longrightarrow>
      status_of (response (proxy_view e c req)) = Some 200 \<and>
      answers_fetched_payload e (proxy_view e c req))"
proof -
  have "writes_only_with_payload e c (proxy_view e c req)"
    by (cases req)
      (simp_all add: overpass_writes_only_with_payload climate_writes_only_with_payload
        canopy_writes_only_with_payload)
  then show ?thesis
    unfolding writes_only_with_payload_def error_status_def by blast
qed

text \<open>
  On an empty cache: an Overpass request whose upstream call times out is answered 504
  and writes nothing; a Canopy request whose upstream call returns three bytes writes
  them to the cache and answers 200 with them.
\<close>

theorem errors_leave_cache_unchanged_witness:
  "\<forall>h. status_of (response (proxy_view (env_no_files 0 (\<lambda>_. RaisesTimeout ''timed out'') h)
           Map.empty (OverpassRequest ''[out:json];node(1);out;''))) = Some 504 \<and>
       (504::nat) \<in> {400, 404, 500, 502, 504} \<and>
       store (proxy_view (env_no_files 0 (\<lambda>_. RaisesTimeout ''timed out'') h)
           Map.empty (OverpassRequest ''[out:json];node(1);out;'')) = Map.empty \<and>
       cache_writes (proxy_view (env_no_files 0 (\<lambda>_. ok_bytes [1, 2, 3]) h)
           Map.empty (CanopyRequest ''01'')) \<noteq> 0 \<and>
       status_of (response (proxy_view (env_no_files 0 (\<lambda>_. ok_bytes [1, 2, 3]) h)
           Map.empty (CanopyRequest ''01''))) = Some 200 \<and>
       answers_fetched_payload (env_no_files 0 (\<lambda>_. ok_bytes [1, 2, 3]) h)
         (proxy_view (env_no_files 0 (\<lambda>_. ok_bytes [1, 2, 3]) h) Map.empty (CanopyRequest ''01''))"
proof (intro allI)
  fix h
  let ?e1 = "env_no_files 0 (\<lambda>_. RaisesTimeout ''timed out'') h"
  let ?e2 = "env_no_files 0 (\<lambda>_. ok_bytes [1, 2, 3]) h"
  let ?q = "''[out:json];node(1);out;''"
  have reach: "overpass_reaches_upstream ?e1 Map.empty ?q"
    by (rule overpass_reaches_upstream_empty) simp
  have st: "status_of (response (proxy_view ?e1 Map.empty (OverpassRequest ?q))) = Some 504"
    by (simp add: overpass_post_upstream [OF reach] Let_def env_no_files_simps)
  have mem: "(504::nat) \<in> {400, 404, 500, 502, 504}"
    by simp
  have wr: "cache_writes (proxy_view ?e2 Map.empty (CanopyRequest ''01'')) \<noteq> 0"
    by (simp add: canopy_get_upstream [OF reaches_01] Let_def env_no_files_simps ok_bytes_def
        is_success_def cache_writes_def)
  note a = errors_leave_cache_unchanged [of ?e1 Map.empty "OverpassRequest ?q" 504,
      THEN conjunct1, THEN mp, OF conjI [OF st mem], THEN conjunct1]
  note b = errors_leave_cache_unchanged [of ?e2 Map.empty "CanopyRequest ''01''",
      THEN conjunct2, THEN mp, OF disjI2 [OF wr]]
  show "status_of (response (proxy_view ?e1 Map.empty (OverpassRequest ?q))) = Some 504 \<and>
       (504::nat) \<in> {400, 404, 500, 502, 504} \<and>
       store (proxy_view ?e1 Map.empty (OverpassRequest ?q)) = Map.empty \<and>
       cache_writes (proxy_view ?e2 Map.empty (CanopyRequest ''01'')) \<noteq> 0 \<and>
       status_of (response (proxy_view ?e2 Map.empty (CanopyRequest ''01''))) = Some 200 \<and>
       answers_fetched_payload ?e2 (proxy_view ?e2 Map.empty (CanopyRequest ''01''))"
    by (intro conjI st mem a wr b [THEN conjunct1] b [THEN conjunct2])
qed

section \<open>Rounding and printing coordinates\<close>

lemma round_half_even_near:
  assumes "\<bar>x - of_int k\<bar> < 1 / 2"
  shows "round_half_even x = k"
proof -
  let ?f = "\<lfloor>x\<rfloor>"
  have fl: "of_int ?f \<le> x" "x < of_int ?f + 1"
    by linarith+
  from assms have b: "of_int k - 1 / 2 < x" "x < of_int k + 1 / 2"
    by linarith+
  have "?f = k \<or> ?f = k - 1"
  proof -
    have "of_int ?f < (of_int k :: rat) + 1 / 2"
      using fl b by linarith
    then have "of_int ?f < (of_int (k + 1) :: rat)"
      by simp
    then have u: "?f < k + 1"
      by (simp only: of_int_less_iff)
    have "(of_int k :: rat) - 1 / 2 < of_int ?f + 1"
      using fl b by linarith
    then have "(of_int (k - 2) :: rat) < of_int ?f"
      by simp
    then have l: "k - 2 < ?f"
      by (simp only: of_int_less_iff)
    from u l show ?thesis
      by linarith
  qed
  then show ?thesis
  proof
    assume e: "?f = k"
    then have "x - of_int ?f < 1 / 2"
      using b by simp
    then show ?thesis
      using e by (simp add: round_half_even_def Let_def)
  next
    assume e: "?f = k - 1"
    then have "1 / 2 < x - of_int ?f"
      using b by simp
    then show ?thesis
      using e by (simp add: round_half_even_def Let_def)
  qed
qed

lemma py_round2_near:
  assumes "\<bar>q * 100 - of_int k\<bar> < 1 / 2" and "k \<noteq> 0 \<or> 0 \<le> q"
  shows "py_round2 (Finite q) = Finite (of_int k / 100)"
  using assms round_half_even_near [OF assms(1)] by (auto simp: Let_def)

lemma py_round2_range:
  "(\<exists>k. py_round2 x = Finite (of_int k / 100)) \<or>
   py_round2 x = NegZero \<or> py_round2 x = PosInf \<or> py_round2 x = NegInf \<or> py_round2 x = NaN"
  by (cases x) (simp_all add: Let_def)

lemma py_repr_hundredths:
  "py_repr (Finite (of_int k / 100)) = (if k < 0 then ''-'' else []) @ repr_hundredths (nat \<bar>k\<bar>)"
proof -
  have "\<bar>rat_of_int k / 100\<bar> * 100 = of_int \<bar>k\<bar>"
    by simp
  then have "\<lfloor>\<bar>rat_of_int k / 100\<bar> * 100\<rfloor> = \<bar>k\<bar>"
    by (simp only: floor_of_int)
  moreover have "rat_of_int k / 100 < 0 \<longleftrightarrow> k < 0"
    by simp
  ultimately show ?thesis
    by (simp only: py_repr.simps)
qed

subsection \<open>Digits\<close>

lemma digit_char_is_digit: "is_digit (digit_char d)"
  unfolding is_digit_def digit_char_def by (rule nth_mem) simp

lemma digit_char_inj: "digit_char a = digit_char b \<Longrightarrow> a mod 10 = b mod 10"
proof -
  have d: "distinct ''0123456789''"
    by simp
  assume "digit_char a = digit_char b"
  then show ?thesis
    unfolding digit_char_def using nth_eq_iff_index_eq [OF d, of "a mod 10" "b mod 10"] by simp
qed

lemma str_nat_not_Nil: "str_nat n \<noteq> []"
  by (subst str_nat.simps) simp

lemma str_nat_digits: "\<forall>ch \<in> set (str_nat n). is_digit ch"
proof (induction n rule: str_nat.induct)
  case (1 n)
  show ?case
  proof (cases "n < 10")
    case True
    then show ?thesis
      by (simp add: str_nat_small digit_char_is_digit)
  next
    case False
    with 1 show ?thesis
      by (simp add: str_nat_large digit_char_is_digit)
  qed
qed

lemma str_nat_inj: "str_nat n = str_nat m \<Longrightarrow> n = m"
proof (induction n arbitrary: m rule: str_nat.induct)
  case (1 n)
  show ?case
  proof (cases "n < 10")
    case n: True
    show ?thesis
    proof (cases "m < 10")
      case True
      with n "1.prems" have "digit_char n = digit_char m"
        by (simp add: str_nat_small)
      then have "n mod 10 = m mod 10"
        by (rule digit_char_inj)
      with n True show ?thesis
        by simp
    next
      case False
      then have "length (str_nat m) \<ge> 2"
        using str_nat_not_Nil [of "m div 10"]
        by (simp add: str_nat_large Suc_le_eq)
      moreover have "length (str_nat n) = 1"
        using n by (simp add: str_nat_small)
      ultimately show ?thesis
        using "1.prems" by simp
    qed
  next
    case n: False
    show ?thesis
    proof (cases "m < 10")
      case True
      from n have "length (str_nat n) \<ge> 2"
        using str_nat_not_Nil [of "n div 10"]
        by (simp add: str_nat_large Suc_le_eq)
      moreover have "length (str_nat m) = 1"
        using True by (simp add: str_nat_small)
      ultimately show ?thesis
        using "1.prems" by simp
    next
      case False
      with n "1.prems" have e: "str_nat (n div 10) = str_nat (m div 10)"
        "digit_char (n mod 10) = digit_char (m mod 10)"
        by (simp_all add: str_nat_large)
      have d: "n div 10 = m div 10"
        using n e(1) by (rule "1.IH")
      from e(2) have "n mod 10 mod 10 = m mod 10 mod 10"
        by (rule digit_char_inj)
      then have r: "n mod 10 = m mod 10"
        by simp
      have "n = n div 10 * 10 + n mod 10"
        by simp
      also have "\<dots> = m div 10 * 10 + m mod 10"
        by (simp only: d r)
      also have "\<dots> = m"
        by simp
      finally show ?thesis .
    qed
  qed
qed

subsection \<open>Printing is injective\<close>

lemma split_at_separator:
  assumes "xs @ sep # ys = xs' @ sep # ys'" and "sep \<notin> set xs" and "sep \<notin> set xs'"
  shows "xs = xs' \<and> ys = ys'"
proof -
  have t: "takeWhile (\<lambda>x. x \<noteq> sep) (zs @ sep # ws) = zs" if "sep \<notin> set zs" for zs ws
    using that by (induction zs) auto
  have "takeWhile (\<lambda>x. x \<noteq> sep) (xs @ sep # ys) = takeWhile (\<lambda>x. x \<noteq> sep) (xs' @ sep # ys')"
    by (simp only: assms(1))
  then have "xs = xs'"
    by (simp only: t [OF assms(2)] t [OF assms(3)])
  with assms(1) show ?thesis
    by simp
qed

lemma not_digit_chars:
  "\<not> is_digit CHR ''.''" "\<not> is_digit CHR '':''" "\<not> is_digit CHR ''-''"
  "\<not> is_digit CHR ''i''" "\<not> is_digit CHR ''n''"
  by (simp_all add: is_digit_def)

lemma repr_hundredths_split: "repr_hundredths n = str_nat (n div 100) @ CHR ''.'' # fraction_digits n"
  by (simp add: repr_hundredths_def fraction_digits_def)

lemma fraction_digits_are_digits: "\<forall>ch \<in> set (fraction_digits n). is_digit ch"
  by (simp add: fraction_digits_def digit_char_is_digit)

lemma fraction_digits_inj:
  assumes "fraction_digits n = fraction_digits m"
  shows "n mod 100 = m mod 100"
proof -
  from assms have z: "n mod 10 = 0 \<longleftrightarrow> m mod 10 = 0"
    by (auto simp: fraction_digits_def split: if_splits)
  from assms have "digit_char (n mod 100 div 10) = digit_char (m mod 100 div 10)"
    by (auto simp: fraction_digits_def split: if_splits)
  then have "n mod 100 div 10 mod 10 = m mod 100 div 10 mod 10"
    by (rule digit_char_inj)
  then have t: "n mod 100 div 10 = m mod 100 div 10"
    by simp
  have u: "n mod 10 = m mod 10"
  proof (cases "n mod 10 = 0")
    case True
    with z show ?thesis
      by simp
  next
    case False
    with z assms have "digit_char (n mod 10) = digit_char (m mod 10)"
      by (simp add: fraction_digits_def)
    then have "n mod 10 mod 10 = m mod 10 mod 10"
      by (rule digit_char_inj)
    then show ?thesis
      by simp
  qed
  have "n mod 100 = n mod 100 div 10 * 10 + n mod 100 mod 10"
    by simp
  also have "n mod 100 mod 10 = n mod 10"
    by (simp add: mod_mod_cancel)
  also have "n mod 100 div 10 * 10 + n mod 10 = m mod 100 div 10 * 10 + m mod 10"
    by (simp only: t u)
  also have "m mod 10 = m mod 100 mod 10"
    by (simp add: mod_mod_cancel)
  also have "m mod 100 div 10 * 10 + m mod 100 mod 10 = m mod 100"
    by simp
  finally show ?thesis .
qed

lemma repr_hundredths_inj:
  assumes "repr_hundredths n = repr_hundredths m"
  shows "n = m"
proof -
  have nd: "CHR ''.'' \<notin> set (str_nat k)" for k
    using str_nat_digits [of k] not_digit_chars(1) by blast
  from assms have "str_nat (n div 100) = str_nat (m div 100) \<and> fraction_digits n = fraction_digits m"
    unfolding repr_hundredths_split by (rule split_at_separator) (rule nd)+
  then have i: "str_nat (n div 100) = str_nat (m div 100)"
    and f: "fraction_digits n = fraction_digits m"
    by simp_all
  have d: "n div 100 = m div 100"
    using i by (rule str_nat_inj)
  have r: "n mod 100 = m mod 100"
    using f by (rule fraction_digits_inj)
  have "n = n div 100 * 100 + n mod 100"
    by simp
  also have "\<dots> = m div 100 * 100 + m mod 100"
    by (simp only: d r)
  also have "\<dots> = m"
    by simp
  finally show ?thesis .
qed

lemma repr_hundredths_chars:
  "\<forall>ch \<in> set (repr_hundredths n). is_digit ch \<or> ch = CHR ''.''"
  using str_nat_digits [of "n div 100"] fraction_digits_are_digits [of n]
  by (auto simp: repr_hundredths_split)

lemma repr_hundredths_hd: "\<exists>d ds. repr_hundredths n = d # ds \<and> is_digit d"
proof -
  obtain d ds where s: "str_nat (n div 100) = d # ds"
    using str_nat_not_Nil [of "n div 100"] by (cases "str_nat (n div 100)") simp_all
  then have "is_digit d"
    using str_nat_digits [of "n div 100"] by simp
  with s show ?thesis
    by (simp add: repr_hundredths_split)
qed

lemma repr_hundredths_0: "repr_hundredths 0 = ''0.0''"
  by (simp add: repr_hundredths_def str_nat_small digit_char_def)

lemma py_repr_hundredths_inj:
  assumes "py_repr (Finite (of_int j / 100)) = py_repr (Finite (of_int k / 100))"
  shows "j = k"
proof -
  obtain d ds where hj: "repr_hundredths (nat \<bar>j\<bar>) = d # ds" "is_digit d"
    using repr_hundredths_hd by blast
  obtain d' ds' where hk: "repr_hundredths (nat \<bar>k\<bar>) = d' # ds'" "is_digit d'"
    using repr_hundredths_hd by blast
  have sign: "j < 0 \<longleftrightarrow> k < 0"
    using assms hj hk not_digit_chars(3) unfolding py_repr_hundredths
    by (auto split: if_splits)
  then have "repr_hundredths (nat \<bar>j\<bar>) = repr_hundredths (nat \<bar>k\<bar>)"
    using assms unfolding py_repr_hundredths by (auto split: if_splits)
  then have "nat \<bar>j\<bar> = nat \<bar>k\<bar>"
    by (rule repr_hundredths_inj)
  with sign show ?thesis
    by linarith
qed

lemma py_repr_hundredths_not_special:
  "py_repr (Finite (of_int k / 100)) \<notin> {''-0.0'', ''inf'', ''-inf'', ''nan''}"
proof -
  obtain d ds where h: "repr_hundredths (nat \<bar>k\<bar>) = d # ds" "is_digit d"
    using repr_hundredths_hd by blast
  show ?thesis
  proof (cases "k < 0")
    case True
    have "repr_hundredths (nat \<bar>k\<bar>) \<noteq> repr_hundredths 0"
      using True repr_hundredths_inj [of "nat \<bar>k\<bar>" 0] by auto
    then have "repr_hundredths (nat \<bar>k\<bar>) \<noteq> ''0.0''"
      by (simp add: repr_hundredths_0)
    moreover have "repr_hundredths (nat \<bar>k\<bar>) \<noteq> ''inf''"
      using h not_digit_chars(4) by auto
    ultimately show ?thesis
      using True h not_digit_chars by (auto simp: py_repr_hundredths)
  next
    case False
    then show ?thesis
      using h not_digit_chars by (auto simp: py_repr_hundredths)
  qed
qed

lemma py_repr_round2_inj:
  assumes "py_repr (py_round2 x) = py_repr (py_round2 y)"
  shows "py_round2 x = py_round2 y"
proof -
  note ns = py_repr_hundredths_not_special
  consider (fin) j where "py_round2 x = Finite (of_int j / 100)"
    | (spec) "py_round2 x \<in> {NegZero, PosInf, NegInf, NaN}"
    using py_round2_range [of x] by auto
  then show ?thesis
  proof cases
    case fin
    consider (fin') k where "py_round2 y = Finite (of_int k / 100)"
      | (spec') "py_round2 y \<in> {NegZero, PosInf, NegInf, NaN}"
      using py_round2_range [of y] by auto
    then show ?thesis
    proof cases
      case fin'
      with fin assms have "j = k"
        by (intro py_repr_hundredths_inj) simp
      with fin fin' show ?thesis
        by simp
    next
      case spec'
      with fin assms ns [of j] show ?thesis
        by auto
    qed
  next
    case spec
    consider (fin') k where "py_round2 y = Finite (of_int k / 100)"
      | (spec') "py_round2 y \<in> {NegZero, PosInf, NegInf, NaN}"
      using py_round2_range [of y] by auto
    then show ?thesis
    proof cases
      case fin'
      with spec assms ns [of k] show ?thesis
        by auto
    next
      case spec'
      with spec assms show ?thesis
        by auto
    qed
  qed
qed

lemma py_repr_round2_no_colon: "CHR '':'' \<notin> set (py_repr (py_round2 x))"
proof -
  consider (fin) j where "py_round2 x = Finite (of_int j / 100)"
    | (spec) "py_round2 x \<in> {NegZero, PosInf, NegInf, NaN}"
    using py_round2_range [of x] by auto
  then show ?thesis
  proof cases
    case fin
    show ?thesis
      unfolding fin py_repr_hundredths
      using repr_hundredths_chars [of "nat \<bar>j\<bar>"] not_digit_chars(2)
      by auto
  next
    case spec
    then show ?thesis
      by auto
  qed
qed

lemma climate_cache_key_eq_iff:
  "climate_cache_key lat_f lng_f = climate_cache_key lat_f' lng_f' \<longleftrightarrow>
     py_round2 lat_f = py_round2 lat_f' \<and> py_round2 lng_f = py_round2 lng_f'"
proof
  assume "climate_cache_key lat_f lng_f = climate_cache_key lat_f' lng_f'"
  then have "py_repr (py_round2 lat_f) @ CHR '':'' # py_repr (py_round2 lng_f) =
      py_repr (py_round2 lat_f') @ CHR '':'' # py_repr (py_round2 lng_f')"
    by (simp add: climate_cache_key_def Let_def)
  then have "py_repr (py_round2 lat_f) = py_repr (py_round2 lat_f') \<and>
      py_repr (py_round2 lng_f) = py_repr (py_round2 lng_f')"
    by (rule split_at_separator) (rule py_repr_round2_no_colon)+
  then show "py_round2 lat_f = py_round2 lat_f' \<and> py_round2 lng_f = py_round2 lng_f'"
    using py_repr_round2_inj by blast
next
  assume "py_round2 lat_f = py_round2 lat_f' \<and> py_round2 lng_f = py_round2 lng_f'"
  then show "climate_cache_key lat_f lng_f = climate_cache_key lat_f' lng_f'"
    by (simp add: climate_cache_key_def Let_def)
qed

section \<open>Climate: the cache key and rounding\<close>

lemma repr_round2_hundredth:
  assumes "of_int k - 1 / 2 < q * 100" and "q * 100 < of_int k + 1 / 2" and "k \<noteq> 0 \<or> 0 \<le> q"
  shows "py_round2 (Finite q) = Finite (of_int k / 100)"
    and "py_repr (py_round2 (Finite q)) = (if k < 0 then ''-'' else []) @ repr_hundredths (nat \<bar>k\<bar>)"
proof -
  have "\<bar>q * 100 - of_int k\<bar> < 1 / 2"
    using assms(1,2) by linarith
  then show r: "py_round2 (Finite q) = Finite (of_int k / 100)"
    using assms(3) by (rule py_round2_near)
  show "py_repr (py_round2 (Finite q)) = (if k < 0 then ''-'' else []) @ repr_hundredths (nat \<bar>k\<bar>)"
    by (simp only: r py_repr_hundredths)
qed

lemma repr_hundredths_examples:
  "repr_hundredths 3777 = ''37.77''" "repr_hundredths 3778 = ''37.78''"
  "repr_hundredths 12242 = ''122.42''"
  by (simp_all add: repr_hundredths_def digits_eval)

lemma repr_round_37_77:
  assumes "37765 / 1000 < q" and "q < 37775 / 1000"
  shows "py_repr (py_round2 (Finite q)) = ''37.77''"
proof -
  have "of_int 3777 - 1 / 2 < q * 100" "q * 100 < of_int 3777 + 1 / 2" "(3777::int) \<noteq> 0 \<or> 0 \<le> q"
    using assms by simp_all
  then have "py_repr (py_round2 (Finite q)) =
      (if (3777::int) < 0 then ''-'' else []) @ repr_hundredths (nat \<bar>3777\<bar>)"
    by (rule repr_round2_hundredth)
  also have "\<dots> = ''37.77''"
    by (simp add: repr_hundredths_examples)
  finally show ?thesis .
qed

lemma repr_round_37_78:
  assumes "37775 / 1000 < q" and "q < 37785 / 1000"
  shows "py_repr (py_round2 (Finite q)) = ''37.78''"
proof -
  have "of_int 3778 - 1 / 2 < q * 100" "q * 100 < of_int 3778 + 1 / 2" "(3778::int) \<noteq> 0 \<or> 0 \<le> q"
    using assms by simp_all
  then have "py_repr (py_round2 (Finite q)) =
      (if (3778::int) < 0 then ''-'' else []) @ repr_hundredths (nat \<bar>3778\<bar>)"
    by (rule repr_round2_hundredth)
  also have "\<dots> = ''37.78''"
    by (simp add: repr_hundredths_examples)
  finally show ?thesis .
qed

lemma round_minus_122_42:
  assumes "- 122425 / 1000 < q" and "q < - 122415 / 1000"
  shows "py_round2 (Finite q) = Finite (of_int (- 12242) / 100)"
    and "py_repr (py_round2 (Finite q)) = ''-122.42''"
proof -
  have h: "of_int (- 12242) - 1 / 2 < q * 100" "q * 100 < of_int (- 12242) + 1 / 2"
    "(- 12242::int) \<noteq> 0 \<or> 0 \<le> q"
    using assms by simp_all
  then show "py_round2 (Finite q) = Finite (of_int (- 12242) / 100)"
    by (rule repr_round2_hundredth)
  from h have "py_repr (py_round2 (Finite q)) =
      (if (- 12242::int) < 0 then ''-'' else []) @ repr_hundredths (nat \<bar>- 12242\<bar>)"
    by (rule repr_round2_hundredth)
  also have "\<dots> = ''-122.42''"
    by (simp add: repr_hundredths_examples)
  finally show "py_repr (py_round2 (Finite q)) = ''-122.42''" .
qed

lemma round_37_77:
  assumes "37765 / 1000 < q" and "q < 37775 / 1000"
  shows "py_round2 (Finite q) = Finite (of_int 3777 / 100)"
proof -
  have "of_int 3777 - 1 / 2 < q * 100" "q * 100 < of_int 3777 + 1 / 2" "(3777::int) \<noteq> 0 \<or> 0 \<le> q"
    using assms by simp_all
  then show ?thesis
    by (rule repr_round2_hundredth)
qed

lemma climate_cache_key_same_rounding:
  "py_round2 lat_f = py_round2 lat_f' \<Longrightarrow> py_round2 lng_f = py_round2 lng_f' \<Longrightarrow>
   climate_cache_key lat_f lng_f = climate_cache_key lat_f' lng_f'"
  by (simp add: climate_cache_key_def Let_def)

lemma climate_cache_key_37_77:
  "37765 / 1000 < q \<Longrightarrow> q < 37775 / 1000 \<Longrightarrow>
   climate_cache_key (Finite q) lng_f = ''climate:37.77:'' @ py_repr (py_round2 lng_f)"
  by (simp add: climate_cache_key_def Let_def repr_round_37_77 del: py_round2.simps py_repr.simps)

lemma climate_cache_key_37_78:
  "37775 / 1000 < q \<Longrightarrow> q < 37785 / 1000 \<Longrightarrow>
   climate_cache_key (Finite q) lng_f = ''climate:37.78:'' @ py_repr (py_round2 lng_f)"
  by (simp add: climate_cache_key_def Let_def repr_round_37_78 del: py_round2.simps py_repr.simps)

lemma repr_round_minus_122_419: "py_repr (py_round2 (Finite (- 122419 / 1000))) = ''-122.42''"
  by (rule round_minus_122_42) simp_all

text \<open>
  C1, as the code has it. The key is made from the coordinates rounded to two decimals
  (to the nearest hundredth, not cut off after the second decimal), so two requests
  whose latitudes round to the same value, and whose longitudes do, derive the same
  cache key. The latitude 37.774, like every latitude strictly between 37.765 and 37.775,
  gives the key component 37.77; a latitude strictly between 37.775 and 37.785, such as
  37.7751, gives 37.78.
\<close>

theorem climate_cache_key_rounding:
  "(py_round2 lat_f = py_round2 lat_f' \<and> py_round2 lng_f = py_round2 lng_f' \<longrightarrow>
      climate_cache_key lat_f lng_f = climate_cache_key lat_f' lng_f') \<and>
   (37765 / 1000 < q \<and> q < 37775 / 1000 \<longrightarrow>
      climate_cache_key (Finite q) lng_f = ''climate:37.77:'' @ py_repr (py_round2 lng_f)) \<and>
   (37775 / 1000 < q \<and> q < 37785 / 1000 \<longrightarrow>
      climate_cache_key (Finite q) lng_f = ''climate:37.78:'' @ py_repr (py_round2 lng_f))"
  using climate_cache_key_same_rounding [of lat_f lat_f' lng_f lng_f']
    climate_cache_key_37_77 [of q lng_f] climate_cache_key_37_78 [of q lng_f]
  by blast

text \<open>
  The latitudes 37.774 and 37.7712 with the longitudes -122.419 and -122.4212 derive one
  key; 37.774 gives the component 37.77 and 37.7751 gives 37.78.
\<close>

theorem climate_cache_key_rounding_witness:
  "climate_cache_key (Finite (37774 / 1000)) (Finite (- 122419 / 1000)) =
     climate_cache_key (Finite (377712 / 10000)) (Finite (- 1224212 / 10000)) \<and>
   climate_cache_key (Finite (37774 / 1000)) (Finite (- 122419 / 1000)) =
     ''climate:37.77:'' @ py_repr (py_round2 (Finite (- 122419 / 1000))) \<and>
   climate_cache_key (Finite (377751 / 10000)) (Finite (- 122419 / 1000)) =
     ''climate:37.78:'' @ py_repr (py_round2 (Finite (- 122419 / 1000)))"
proof -
  have "py_round2 (Finite (37774 / 1000)) = Finite (of_int 3777 / 100)"
    by (rule round_37_77) simp_all
  moreover have "py_round2 (Finite (377712 / 10000)) = Finite (of_int 3777 / 100)"
    by (rule round_37_77) simp_all
  ultimately have lat: "py_round2 (Finite (37774 / 1000)) = py_round2 (Finite (377712 / 10000))"
    by (rule trans_sym)
  have "py_round2 (Finite (- 122419 / 1000)) = Finite (of_int (- 12242) / 100)"
    by (rule round_minus_122_42) simp_all
  moreover have "py_round2 (Finite (- 1224212 / 10000)) = Finite (of_int (- 12242) / 100)"
    by (rule round_minus_122_42) simp_all
  ultimately have lng: "py_round2 (Finite (- 122419 / 1000)) = py_round2 (Finite (- 1224212 / 10000))"
    by (rule trans_sym)
  have a: "(37765::rat) / 1000 < 37774 / 1000 \<and> (37774::rat) / 1000 < 37775 / 1000"
    by simp
  have b: "(37775::rat) / 1000 < 377751 / 10000 \<and> (377751::rat) / 10000 < 37785 / 1000"
    by simp
  note t = climate_cache_key_rounding
  show ?thesis
    by (intro conjI t [THEN conjunct1, THEN mp, OF conjI [OF lat lng]]
        t [THEN conjunct2, THEN conjunct1, THEN mp, OF a]
        t [THEN conjunct2, THEN conjunct2, THEN mp, OF b])
qed

text \<open>
  C1 as stated fails at its own example: the latitudes 37.774 and 37.7751, with one
  longitude, derive the keys \<^verbatim>\<open>climate:37.77:-122.42\<close> and \<^verbatim>\<open>climate:37.78:-122.42\<close>.
\<close>

theorem climate_cache_key_counterexample:
  "climate_cache_key (Finite (37774 / 1000)) (Finite (- 122419 / 1000)) = ''climate:37.77:-122.42'' \<and>
   climate_cache_key (Finite (377751 / 10000)) (Finite (- 122419 / 1000)) = ''climate:37.78:-122.42'' \<and>
   climate_cache_key (Finite (37774 / 1000)) (Finite (- 122419 / 1000)) \<noteq>
     climate_cache_key (Finite (377751 / 10000)) (Finite (- 122419 / 1000))"
proof -
  have "climate_cache_key (Finite (37774 / 1000)) (Finite (- 122419 / 1000)) =
      ''climate:37.77:'' @ py_repr (py_round2 (Finite (- 122419 / 1000)))"
    by (rule climate_cache_key_37_77) simp_all
  then have a: "climate_cache_key (Finite (37774 / 1000)) (Finite (- 122419 / 1000)) = ''climate:37.77:-122.42''"
    by (simp only: repr_round_minus_122_419 append.simps)
  have "climate_cache_key (Finite (377751 / 10000)) (Finite (- 122419 / 1000)) =
      ''climate:37.78:'' @ py_repr (py_round2 (Finite (- 122419 / 1000)))"
    by (rule climate_cache_key_37_78) simp_all
  then have b: "climate_cache_key (Finite (377751 / 10000)) (Finite (- 122419 / 1000)) = ''climate:37.78:-122.42''"
    by (simp only: repr_round_minus_122_419 append.simps)
  have "''climate:37.77:-122.42'' \<noteq> ''climate:37.78:-122.42''"
    by simp
  then show ?thesis
    by (simp only: a b simp_thms)
qed

section \<open>Cache keys of distinct requests\<close>

lemma overpass_cache_key_collides:
  "\<exists>query query'. query \<noteq> [] \<and> query' \<noteq> [] \<and> query \<noteq> query' \<and>
     overpass_cache_key e query = overpass_cache_key e query'"
proof -
  let ?A = "{q::string. q \<noteq> []}"
  have "overpass_cache_key e ` ?A \<subseteq> {s. set s \<subseteq> UNIV \<and> length s \<le> 25}"
    by (auto simp: overpass_cache_key_def)
  moreover have "finite {s::string. set s \<subseteq> UNIV \<and> length s \<le> 25}"
    by (rule finite_lists_length_le) simp
  ultimately have fin: "finite (overpass_cache_key e ` ?A)"
    by (rule finite_subset)
  have "(UNIV::string set) = insert [] ?A"
    by auto
  then have "finite ?A \<Longrightarrow> finite (UNIV::string set)"
    by simp
  then have inf: "infinite ?A"
    using infinite_UNIV_listI [where ?'a = char] by blast
  have "\<not> inj_on (overpass_cache_key e) ?A"
    using fin inf finite_imageD by blast
  then show ?thesis
    unfolding inj_on_def by blast
qed

lemma overpass_cache_key_eq_iff:
  "overpass_cache_key e query = overpass_cache_key e query' \<longleftrightarrow>
     take 16 (sha256_hexdigest e query) = take 16 (sha256_hexdigest e query')"
  by (simp add: overpass_cache_key_def)

lemma canopy_cache_key_eq_iff:
  "canopy_cache_key quadkey = canopy_cache_key quadkey' \<longleftrightarrow> quadkey = quadkey'"
  by (simp add: canopy_cache_key_def)

lemma cache_keys_of_different_views:
  "overpass_cache_key e query \<noteq> climate_cache_key lat_f lng_f"
  "overpass_cache_key e query \<noteq> canopy_cache_key quadkey"
  "climate_cache_key lat_f lng_f \<noteq> canopy_cache_key quadkey"
  by (simp_all add: overpass_cache_key_def climate_cache_key_def canopy_cache_key_def Let_def
      del: py_round2.simps py_repr.simps)

text \<open>
  C8, as the code has it. Requests to different views never share a cache key. Two
  Canopy requests share a key only when their quadkeys are equal, and two Climate
  requests only when their rounded coordinate pairs are equal. Two Overpass requests
  share a key exactly when the first 16 hexadecimal characters of the SHA-256 digests of
  their queries are equal.
\<close>

theorem cache_keys_distinct:
  "(canopy_cache_key quadkey = canopy_cache_key quadkey' \<longleftrightarrow> quadkey = quadkey') \<and>
   (climate_cache_key lat_f lng_f = climate_cache_key lat_f' lng_f' \<longleftrightarrow>
      py_round2 lat_f = py_round2 lat_f' \<and> py_round2 lng_f = py_round2 lng_f') \<and>
   (overpass_cache_key e query = overpass_cache_key e query' \<longleftrightarrow>
      take 16 (sha256_hexdigest e query) = take 16 (sha256_hexdigest e query')) \<and>
   overpass_cache_key e query \<noteq> climate_cache_key lat_f lng_f \<and>
   overpass_cache_key e query \<noteq> canopy_cache_key quadkey \<and>
   climate_cache_key lat_f lng_f \<noteq> canopy_cache_key quadkey"
  by (intro conjI canopy_cache_key_eq_iff climate_cache_key_eq_iff overpass_cache_key_eq_iff
      cache_keys_of_different_views)

text \<open>
  C8 as stated fails for Overpass: the key keeps 16 characters of the digest, so whatever
  the hash function, two distinct non-empty queries derive the same key.
\<close>

theorem overpass_cache_key_counterexample:
  "\<forall>e. \<exists>query query'. query \<noteq> [] \<and> query' \<noteq> [] \<and> query \<noteq> query' \<and>
     overpass_cache_key e query = overpass_cache_key e query'"
  by (intro allI overpass_cache_key_collides)

end
